theory Spec2Isabelle
  imports Main "HOL-Library.List_Lexorder" "HOL-Library.Char_ord" "HOL-Library.Multiset"
begin

section \<open>Python values used by the podcast generator\<close>

text \<open>
  The program under study is \<^verbatim>\<open>app.py\<close>: research, script generation, voice
  synthesis, jingle generation and audio stitching, sequenced by the \<^verbatim>\<open>/generate\<close>
  route. Text is modelled as \<^typ>\<open>string\<close> holding the UTF-8 encoding of a Python
  \<^verbatim>\<open>str\<close>.
\<close>

subsection \<open>Exceptions\<close>

datatype exn =
    HTTPError | KeyError | IndexError | TypeError | AttributeError | ValueError
  | StopIteration | OSError | CouldntDecodeError | OtherError

subsection \<open>Strings\<close>

definition startswith :: "string \<Rightarrow> string \<Rightarrow> bool" where
  "startswith s p = (take (length p) s = p)"

text \<open>
  \<^verbatim>\<open>str.strip()\<close> and the class \<^verbatim>\<open>\s\<close> of \<^verbatim>\<open>re\<close> work on code points: they take the
  characters for which \<^verbatim>\<open>str.isspace()\<close> holds. These are U+0009 to U+000D, U+001C to
  U+0020, U+0085, U+00A0, U+1680, U+2000 to U+200A, U+2028, U+2029, U+202F, U+205F and
  U+3000, listed here by their UTF-8 encodings.
\<close>

definition whitespace :: "string list" where
  "whitespace =
     map (\<lambda>c. [c]) [CHR 0x09, CHR 0x0A, CHR 0x0B, CHR 0x0C, CHR 0x0D,
                     CHR 0x1C, CHR 0x1D, CHR 0x1E, CHR 0x1F, CHR 0x20]
     @ [[CHR 0xC2, CHR 0x85], [CHR 0xC2, CHR 0xA0], [CHR 0xE1, CHR 0x9A, CHR 0x80]]
     @ map (\<lambda>c. [CHR 0xE2, CHR 0x80, c])
         [CHR 0x80, CHR 0x81, CHR 0x82, CHR 0x83, CHR 0x84, CHR 0x85, CHR 0x86, CHR 0x87,
          CHR 0x88, CHR 0x89, CHR 0x8A, CHR 0xA8, CHR 0xA9, CHR 0xAF]
     @ [[CHR 0xE2, CHR 0x81, CHR 0x9F], [CHR 0xE3, CHR 0x80, CHR 0x80]]"

text \<open>The first of the encodings \<open>ps\<close> that the text starts with.\<close>

definition leading :: "string list \<Rightarrow> string \<Rightarrow> string option" where
  "leading ps s = find (\<lambda>p. p \<noteq> [] \<and> startswith s p) ps"

text \<open>Removing characters of \<open>ps\<close> from the start of a text for as long as there is one.\<close>

function drop_leading :: "string list \<Rightarrow> string \<Rightarrow> string" where
  "drop_leading ps s =
     (case leading ps s of
        None \<Rightarrow> s
      | Some p \<Rightarrow> drop_leading ps (drop (length p) s))"
  by pat_completeness auto
termination
proof (relation "measure (\<lambda>(ps, s). length s)")
  show "wf (measure (\<lambda>(ps, s). length s))" by simp
next
  fix ps :: "string list" and s p :: string
  assume "leading ps s = Some p"
  then have "p \<noteq> []" and "take (length p) s = p"
    by (auto simp: leading_def find_Some_iff startswith_def)
  then have "length p \<noteq> 0" and "length p = min (length p) (length s)"
    using length_take [of "length p" s] by simp_all
  then have "length s - length p < length s"
    by arith
  then show "((ps, drop (length p) s), (ps, s)) \<in> measure (\<lambda>(ps, s). length s)"
    by simp
qed

declare drop_leading.simps [simp del]

text \<open>
  At the end of a text the same is done on the reversed text with the reversed
  encodings: in UTF-8 no encoding ends inside another one.
\<close>

definition lstrip :: "string \<Rightarrow> string" where
  "lstrip s = drop_leading whitespace s"

definition rstrip :: "string \<Rightarrow> string" where
  "rstrip s = rev (drop_leading (map rev whitespace) (rev s))"

definition strip :: "string \<Rightarrow> string" where
  "strip s = rstrip (lstrip s)"

subsection \<open>JSON values\<close>

text \<open>
  What \<^verbatim>\<open>json.loads\<close> and \<^verbatim>\<open>Response.json()\<close> return. An object is an association
  list; a lookup takes the first binding of a key.
\<close>

datatype json =
    JNull | JBool bool | JNum int | JStr string
  | JArr "json list" | JObj "(string \<times> json) list"

section \<open>Script parsing\<close>

text \<open>
  \<^verbatim>\<open>re.sub(r"^```(?:json)?\s*\n?", "", text)\<close>: the pattern is anchored at the start, so
  at most one match is removed: three backticks, the tag \<^verbatim>\<open>json\<close> when it follows, and
  the whitespace after it (the greedy \<^verbatim>\<open>\s*\<close> leaves nothing for \<^verbatim>\<open>\n?\<close>).
\<close>

definition fence :: string where
  "fence = [CHR 0x60, CHR 0x60, CHR 0x60]"

definition sub_leading_fence :: "string \<Rightarrow> string" where
  "sub_leading_fence text =
     (if startswith text fence then
        (let r = drop 3 text;
             r' = (if startswith r ''json'' then drop 4 r else r)
         in lstrip r')
      else text)"

text \<open>
  \<^verbatim>\<open>re.sub(r"\n?```\s*$", "", text)\<close>: a match has to reach the end of the text, so it
  is the last three backticks when only whitespace follows them, together with one
  newline in front of them when there is one.
\<close>

definition sub_trailing_fence :: "string \<Rightarrow> string" where
  "sub_trailing_fence text =
     (let r = rev (rstrip text) in
      if startswith r fence then
        (let r2 = drop 3 r in
         rev (if startswith r2 [CHR 0x0A] then drop 1 r2 else r2))
      else text)"

text \<open>
  \<^verbatim>\<open>re.search(r"\[.*\]", text, re.DOTALL)\<close>: the match starts at the first opening
  bracket and, the star being greedy and the dot matching newlines, ends at the last
  closing bracket of the text.
\<close>

definition search_bracket_block :: "string \<Rightarrow> string option" where
  "search_bracket_block text =
     (let u = dropWhile (\<lambda>c. c \<noteq> CHR ''['') text;
          v = rev (dropWhile (\<lambda>c. c \<noteq> CHR '']'') (rev u))
      in if v = [] then None else Some v)"

text \<open>
  \<^verbatim>\<open>_parse_script_json\<close>. The decoder \<^verbatim>\<open>json.loads\<close> belongs to the standard library
  and is a parameter: \<open>None\<close> stands for \<^verbatim>\<open>JSONDecodeError\<close>.
\<close>

definition strip_code_fence :: "string \<Rightarrow> string" where
  "strip_code_fence text0 =
     (let text = strip text0 in
      if startswith text fence
      then sub_trailing_fence (sub_leading_fence text) else text)"

definition parse_script_json :: "(string \<Rightarrow> json option) \<Rightarrow> string \<Rightarrow> exn + json" where
  "parse_script_json loads text0 =
     (let text = strip_code_fence text0
      in case loads text of
           Some (JArr xs) \<Rightarrow> Inr (JArr xs)
         | _ \<Rightarrow>
           (case search_bracket_block text of
              Some m \<Rightarrow> (case loads m of Some v \<Rightarrow> Inr v | None \<Rightarrow> Inl ValueError)
            | None \<Rightarrow> Inl ValueError))"








section \<open>Python operations on decoded JSON\<close>

text \<open>
  The values that come back from the services are not validated by the program, so each
  operation is modelled on every JSON value, with the exception Python raises when the
  value has the wrong type.
\<close>

definition andthen :: "exn + 'a \<Rightarrow> ('a \<Rightarrow> exn + 'b) \<Rightarrow> exn + 'b" where
  "andthen r f = (case r of Inl e \<Rightarrow> Inl e | Inr x \<Rightarrow> f x)"

definition is_continuation :: "char \<Rightarrow> bool" where
  "is_continuation c = (128 \<le> (of_char c :: nat) \<and> (of_char c :: nat) < 192)"

text \<open>The code points of a text: a byte with the continuation bytes that follow it.\<close>

fun codepoints_from :: "string \<Rightarrow> string \<Rightarrow> string list" where
  "codepoints_from acc [] = (if acc = [] then [] else [rev acc])"
| "codepoints_from acc (c # cs) =
     (if is_continuation c \<or> acc = [] then codepoints_from (c # acc) cs
      else rev acc # codepoints_from [c] cs)"

definition codepoints :: "string \<Rightarrow> string list" where
  "codepoints s = codepoints_from [] s"

definition py_len :: "string \<Rightarrow> nat" where
  "py_len s = length (codepoints s)"

definition py_prefix :: "nat \<Rightarrow> string \<Rightarrow> string" where
  "py_prefix n s = concat (take n (codepoints s))"

fun truthy :: "json \<Rightarrow> bool" where
  "truthy JNull = False"
| "truthy (JBool b) = b"
| "truthy (JNum n) = (n \<noteq> 0)"
| "truthy (JStr s) = (s \<noteq> [])"
| "truthy (JArr xs) = (xs \<noteq> [])"
| "truthy (JObj kvs) = (kvs \<noteq> [])"

text \<open>\<^verbatim>\<open>v[key]\<close> with a string key.\<close>

fun getitem_key :: "json \<Rightarrow> string \<Rightarrow> exn + json" where
  "getitem_key (JObj kvs) k = (case map_of kvs k of None \<Rightarrow> Inl KeyError | Some x \<Rightarrow> Inr x)"
| "getitem_key _ k = Inl TypeError"

text \<open>\<^verbatim>\<open>v[i]\<close> with a non-negative integer literal.\<close>

fun getitem_index :: "json \<Rightarrow> nat \<Rightarrow> exn + json" where
  "getitem_index (JArr xs) i = (if i < length xs then Inr (xs ! i) else Inl IndexError)"
| "getitem_index (JStr s) i =
     (if i < length (codepoints s) then Inr (JStr (codepoints s ! i)) else Inl IndexError)"
| "getitem_index (JObj kvs) i = Inl KeyError"
| "getitem_index _ i = Inl TypeError"

text \<open>\<^verbatim>\<open>v.get(key, default)\<close>.\<close>

fun dict_get :: "json \<Rightarrow> string \<Rightarrow> json \<Rightarrow> exn + json" where
  "dict_get (JObj kvs) k d = Inr (case map_of kvs k of None \<Rightarrow> d | Some x \<Rightarrow> x)"
| "dict_get _ k d = Inl AttributeError"

text \<open>\<^verbatim>\<open>next(iter(v.values()))\<close>.\<close>

fun first_value :: "json \<Rightarrow> exn + json" where
  "first_value (JObj []) = Inl StopIteration"
| "first_value (JObj (kv # kvs)) = Inr (snd kv)"
| "first_value _ = Inl AttributeError"

text \<open>
  \<^verbatim>\<open>v.strip()\<close> and \<^verbatim>\<open>v.lower()\<close>. The case mapping is that of the letters A to Z,
  which covers the speaker labels the program names; other characters are left as they
  are.
\<close>

fun str_strip :: "json \<Rightarrow> exn + string" where
  "str_strip (JStr s) = Inr (strip s)"
| "str_strip _ = Inl AttributeError"

definition lower_char :: "char \<Rightarrow> char" where
  "lower_char c =
     (if CHR ''A'' \<le> c \<and> c \<le> CHR ''Z'' then char_of (of_char c + (32 :: nat)) else c)"

fun str_lower :: "json \<Rightarrow> exn + string" where
  "str_lower (JStr s) = Inr (map lower_char s)"
| "str_lower _ = Inl AttributeError"

text \<open>\<^verbatim>\<open>len(v)\<close>.\<close>

fun len :: "json \<Rightarrow> exn + nat" where
  "len (JArr xs) = Inr (length xs)"
| "len (JObj kvs) = Inr (length kvs)"
| "len (JStr s) = Inr (py_len s)"
| "len _ = Inl TypeError"

text \<open>The items a \<^verbatim>\<open>for\<close> loop draws from a value.\<close>

fun iter :: "json \<Rightarrow> exn + json list" where
  "iter (JArr xs) = Inr xs"
| "iter (JObj kvs) = Inr (map (\<lambda>kv. JStr (fst kv)) kvs)"
| "iter (JStr s) = Inr (map JStr (codepoints s))"
| "iter _ = Inl TypeError"

fun is_infix :: "string \<Rightarrow> string \<Rightarrow> bool" where
  "is_infix p [] = (p = [])"
| "is_infix p (c # cs) = (startswith (c # cs) p \<or> is_infix p cs)"

text \<open>\<^verbatim>\<open>key in v\<close> with a string key.\<close>

fun contains :: "json \<Rightarrow> string \<Rightarrow> exn + bool" where
  "contains (JObj kvs) k = Inr (k \<in> set (map fst kvs))"
| "contains (JArr xs) k = Inr (JStr k \<in> set xs)"
| "contains (JStr s) k = Inr (is_infix k s)"
| "contains _ k = Inl TypeError"

text \<open>
  \<^verbatim>\<open>str.splitlines()\<close>: a line ends at \<^verbatim>\<open>\r\n\<close>, at one of the characters U+000A to
  U+000D and U+001C to U+001E, and at U+0085, U+2028 or U+2029; the boundary is not
  kept. Then \<^verbatim>\<open>"\n".join\<close>.
\<close>

definition linebreaks :: "string list" where
  "linebreaks =
     [[CHR 0x0D, CHR 0x0A]]
     @ map (\<lambda>c. [c]) [CHR 0x0A, CHR 0x0B, CHR 0x0C, CHR 0x0D, CHR 0x1C, CHR 0x1D, CHR 0x1E]
     @ [[CHR 0xC2, CHR 0x85], [CHR 0xE2, CHR 0x80, CHR 0xA8], [CHR 0xE2, CHR 0x80, CHR 0xA9]]"

function splitlines_from :: "string \<Rightarrow> string \<Rightarrow> string list" where
  "splitlines_from acc s =
     (if s = [] then (if acc = [] then [] else [rev acc])
      else case leading linebreaks s of
             Some p \<Rightarrow> rev acc # splitlines_from [] (drop (length p) s)
           | None \<Rightarrow> splitlines_from (hd s # acc) (tl s))"
  by pat_completeness auto
termination
proof (relation "measure (\<lambda>(acc, s). length s)")
  show "wf (measure (\<lambda>(acc, s). length s))" by simp
next
  fix acc s p :: string
  assume "s \<noteq> []" and "leading linebreaks s = Some p"
  then have "p \<noteq> []" and "take (length p) s = p"
    by (auto simp: leading_def find_Some_iff startswith_def)
  then have "length p \<noteq> 0" and "length p = min (length p) (length s)"
    using length_take [of "length p" s] by simp_all
  then have "length s - length p < length s"
    by arith
  then show "(([], drop (length p) s), (acc, s)) \<in> measure (\<lambda>(acc, s). length s)"
    by simp
next
  fix acc s :: string
  assume "s \<noteq> []"
  then show "((hd s # acc, tl s), (acc, s)) \<in> measure (\<lambda>(acc, s). length s)"
    by (cases s) simp_all
qed

declare splitlines_from.simps [simp del]

definition splitlines :: "string \<Rightarrow> string list" where
  "splitlines s = splitlines_from [] s"

fun join_lines :: "string list \<Rightarrow> string" where
  "join_lines [] = []"
| "join_lines [l] = l"
| "join_lines (l # m # ls) = l @ [CHR 0x0A] @ join_lines (m # ls)"

section \<open>Audio segments\<close>

text \<open>
  A \<^verbatim>\<open>pydub.AudioSegment\<close> is kept as the term that built it: silence, a sine tone
  (frequency in Hz), a decoded file, and the operations the program applies. In pydub
  \<^verbatim>\<open>a + b\<close> on two segments appends \<open>b\<close> to \<open>a\<close>; mixing is \<^verbatim>\<open>overlay\<close>, which the
  program never calls and which is here only to write down a mixed tone. Durations are
  in milliseconds and add up under appending.
\<close>

datatype audio =
    Empty
  | Silent nat
  | Sine nat nat
  | Decoded string nat
  | Append audio audio
  | Overlay audio audio
  | Gain int audio
  | FadeIn nat audio
  | FadeOut nat audio
  | First nat audio
  | Normalize audio

fun duration :: "audio \<Rightarrow> nat" where
  "duration Empty = 0"
| "duration (Silent d) = d"
| "duration (Sine f d) = d"
| "duration (Decoded b d) = d"
| "duration (Append a b) = duration a + duration b"
| "duration (Overlay a b) = max (duration a) (duration b)"
| "duration (Gain g a) = duration a"
| "duration (FadeIn d a) = duration a"
| "duration (FadeOut d a) = duration a"
| "duration (First n a) = min n (duration a)"
| "duration (Normalize a) = duration a"

text \<open>The pieces of a segment in playing order, effects left on the piece they wrap.\<close>

fun pieces :: "audio \<Rightarrow> audio list" where
  "pieces Empty = []"
| "pieces (Append a b) = pieces a @ pieces b"
| "pieces a = [a]"

section \<open>Paths, files and the outside world\<close>

text \<open>
  A path is the list of its components, which is what \<^verbatim>\<open>pathlib\<close> compares when paths
  are sorted.
\<close>

type_synonym path = "string list"

fun split_slash :: "string \<Rightarrow> string \<Rightarrow> string list" where
  "split_slash acc [] = [rev acc]"
| "split_slash acc (c # cs) =
     (if c = CHR ''/'' then rev acc # split_slash [] cs else split_slash (c # acc) cs)"

definition parts :: "string \<Rightarrow> string list" where
  "parts s = filter (\<lambda>x. x \<noteq> [] \<and> x \<noteq> ''.'') (split_slash [] s)"

text \<open>\<^verbatim>\<open>p / s\<close> of \<^verbatim>\<open>pathlib\<close>: an absolute right operand replaces the left one.\<close>

definition path_div :: "path \<Rightarrow> string \<Rightarrow> path" where
  "path_div p s = (if startswith s ''/'' then ''/'' # parts s else p @ parts s)"

definition OUTPUT_DIR :: path where
  "OUTPUT_DIR = [''output'']"

record config =
  MINIMAX_API_KEY :: string
  MINIMAX_GROUP_ID :: string
  ELEVENLABS_API_KEY :: string
  ELEVENLABS_VOICE_ALEX :: string
  ELEVENLABS_VOICE_SAM :: string

text \<open>The fields of the JSON response of the \<^verbatim>\<open>/generate\<close> route.\<close>

record payload =
  out_job_id :: string
  out_topic :: string
  out_tone :: string
  out_script :: json
  out_research_brief :: string
  out_audio_url :: "string option"
  out_has_audio :: bool
  out_clip_count :: nat

text \<open>
  What the program cannot decide by itself: the library functions it calls and the
  answers of the services. A request that raises (connection, \<^verbatim>\<open>raise_for_status\<close>,
  \<^verbatim>\<open>.json()\<close>) is \<open>Inl\<close>. Speech requests are told apart by the index of the line,
  status polls by the attempt number. \<open>mkdir_error\<close> is the exception of
  \<^verbatim>\<open>mkdir(parents=True, exist_ok=True)\<close> on a path, \<open>write_error\<close> that of a write, and
  \<open>render_error\<close> that of \<^verbatim>\<open>JSONResponse\<close> on the response, which encodes its content
  when it is built and raises on a text with a lone surrogate and on a number that is
  no finite value.
\<close>

record world =
  json_loads :: "string \<Rightarrow> json option"
  str_of :: "json \<Rightarrow> string"
  uuid4 :: string
  wiki_search :: "string \<Rightarrow> exn + json"
  wiki_extract :: "json \<Rightarrow> exn + json"
  http_get_text :: "string \<Rightarrow> exn + string"
  soup_get_text :: "string \<Rightarrow> exn + string"
  chat_completion :: "string \<Rightarrow> exn + json"
  text_to_speech :: "nat \<Rightarrow> string \<Rightarrow> json \<Rightarrow> exn + string"
  music_submit :: "exn + json"
  music_query :: "nat \<Rightarrow> json \<Rightarrow> exn + json"
  http_get_bytes :: "json \<Rightarrow> exn + string"
  write_error :: "path \<Rightarrow> exn option"
  mp3_duration :: "string \<Rightarrow> nat option"
  mp3_encode :: "audio \<Rightarrow> string"
  mkdir_error :: "path \<Rightarrow> exn option"
  render_error :: "payload \<Rightarrow> exn option"

text \<open>
  The state the program changes: the files it wrote, the time it slept and the number
  of status requests it sent.
\<close>

record state =
  files :: "path \<Rightarrow> string option"
  slept :: nat
  status_polls :: nat

text \<open>\<^verbatim>\<open>f"{v}"\<close>: a \<^verbatim>\<open>str\<close> is inserted as it is.\<close>

definition format_value :: "world \<Rightarrow> json \<Rightarrow> string" where
  "format_value w v = (case v of JStr s \<Rightarrow> s | _ \<Rightarrow> str_of w v)"

definition em_dash :: string where
  "em_dash = [CHR 0xE2, CHR 0x80, CHR 0x94]"

section \<open>Research\<close>

text \<open>
  \<^verbatim>\<open>research_topic\<close>: the body of the \<^verbatim>\<open>try\<close> block, then the function with its
  \<^verbatim>\<open>except Exception\<close> handler.
\<close>

definition research_topic_try :: "world \<Rightarrow> string \<Rightarrow> exn + string" where
  "research_topic_try w topic =
     andthen (wiki_search w topic) (\<lambda>search_data.
     andthen (getitem_index search_data 1) (\<lambda>titles.
       if \<not> truthy titles then
         Inr (''Topic: '' @ topic @ ''. (No Wikipedia article found '' @ em_dash
              @ '' generate from general knowledge.)'')
       else
         andthen (getitem_index titles 0) (\<lambda>article_title.
         andthen (wiki_extract w article_title) (\<lambda>extract_data.
         andthen (dict_get extract_data ''query'' (JObj [])) (\<lambda>query.
         andthen (dict_get query ''pages'' (JObj [])) (\<lambda>pages.
         andthen (first_value pages) (\<lambda>page.
         andthen (dict_get page ''extract'' (JStr [])) (\<lambda>raw.
         andthen (str_strip raw) (\<lambda>extract.
           if extract \<noteq> [] then
             Inr (''Wikipedia '' @ em_dash @ '' '' @ format_value w article_title
                  @ [CHR 0x0A, CHR 0x0A] @ extract)
           else
             Inr (''Topic: '' @ topic @ ''. (Wikipedia extract was empty '' @ em_dash
                  @ '' generate from general knowledge.)''))))))))))"

definition research_topic :: "world \<Rightarrow> string \<Rightarrow> string" where
  "research_topic w topic =
     (case research_topic_try w topic of
        Inr brief \<Rightarrow> brief
      | Inl e \<Rightarrow> ''Topic: '' @ topic @ ''. (Wikipedia lookup failed '' @ em_dash
                 @ '' generate from general knowledge.)'')"

text \<open>
  \<^verbatim>\<open>research_url\<close>. \<open>soup_get_text\<close> is the BeautifulSoup part: parsing, removal of the
  noise tags, choice of the article, main or body element, and \<^verbatim>\<open>get_text\<close>.
\<close>

definition research_url_try :: "world \<Rightarrow> string \<Rightarrow> exn + string" where
  "research_url_try w url =
     andthen (http_get_text w url) (\<lambda>html.
     andthen (soup_get_text w html) (\<lambda>text.
       let lines = map strip (filter (\<lambda>l. strip l \<noteq> []) (splitlines text));
           excerpt = join_lines (take 120 lines)
       in if excerpt \<noteq> [] then
            Inr (''Source: '' @ url @ [CHR 0x0A, CHR 0x0A] @ excerpt)
          else
            Inr (''Article URL: '' @ url @ ''. (Page content was empty '' @ em_dash
                 @ '' generate from general knowledge.)'')))"

definition research_url :: "world \<Rightarrow> string \<Rightarrow> string" where
  "research_url w url =
     (case research_url_try w url of
        Inr brief \<Rightarrow> brief
      | Inl e \<Rightarrow> ''Article URL: '' @ url @ ''. (Scraping failed '' @ em_dash
                 @ '' generate from general knowledge.)'')"

section \<open>Script generation\<close>

definition dialogue :: "string \<Rightarrow> string \<Rightarrow> json" where
  "dialogue speaker text = JObj [(''speaker'', JStr speaker), (''text'', JStr text)]"

definition placeholder_script :: "string \<Rightarrow> json" where
  "placeholder_script topic = JArr
     [dialogue ''Alex'' (''Hey Sam, today we're diving into '' @ topic
        @ ''. I've been really curious about this!''),
      dialogue ''Sam'' (''Yeah, '' @ topic @ '' is fascinating. Let me break it down for you.''),
      dialogue ''Alex''
        ''So what's the most surprising thing people don't know about this?'',
      dialogue ''Sam'' (''Well, the thing about '' @ topic
        @ '' that most people miss is how interconnected it is with everyday life. It's not just some abstract concept.''),
      dialogue ''Alex'' ''That's a great point. Can you give me an example?'',
      dialogue ''Sam'' (''Sure! Think of it this way '' @ em_dash
        @ '' it's like how you don't notice gravity until you trip. The effects are everywhere once you start looking.''),
      dialogue ''Alex''
        ''Ha! I love that analogy. What should our listeners take away from this?'',
      dialogue ''Sam'' (''I'd say the key takeaway is that '' @ topic
        @ '' matters more than most people realize. Start paying attention and you'll see it everywhere.''),
      dialogue ''Alex''
        ''Awesome. Thanks for breaking that down, Sam. Until next time, folks!'',
      dialogue ''Sam'' ''See you next episode!'']"

definition user_prompt :: "string \<Rightarrow> string \<Rightarrow> string \<Rightarrow> string" where
  "user_prompt topic tone research_brief =
     ''Topic: '' @ topic @ [CHR 0x0A] @ ''Tone: '' @ tone @ [CHR 0x0A]
     @ ''Research Brief:'' @ [CHR 0x0A] @ research_brief @ [CHR 0x0A, CHR 0x0A]
     @ ''Generate the podcast script now as a JSON array.''"

text \<open>\<^verbatim>\<open>data["choices"][0]["message"]["content"]\<close>.\<close>

definition completion_content :: "json \<Rightarrow> exn + json" where
  "completion_content data =
     andthen (getitem_key data ''choices'') (\<lambda>choices.
     andthen (getitem_index choices 0) (\<lambda>choice.
     andthen (getitem_key choice ''message'') (\<lambda>message.
     getitem_key message ''content'')))"

text \<open>
  The \<^verbatim>\<open>try\<close> block of \<^verbatim>\<open>generate_script\<close>: the request, the lookup of the completion
  text, the parse (whose first step, \<^verbatim>\<open>text.strip()\<close>, needs a \<^verbatim>\<open>str\<close>), and the
  \<^verbatim>\<open>len(script)\<close> of the log line.
\<close>

definition generate_script_try :: "world \<Rightarrow> string \<Rightarrow> string \<Rightarrow> string \<Rightarrow> exn + json" where
  "generate_script_try w topic research_brief tone =
     andthen (chat_completion w (user_prompt topic tone research_brief)) (\<lambda>data.
     andthen (completion_content data) (\<lambda>content.
     andthen (case content of
                JStr t \<Rightarrow> parse_script_json (json_loads w) t
              | _ \<Rightarrow> Inl AttributeError) (\<lambda>script.
     andthen (len script) (\<lambda>n. Inr script))))"

definition generate_script :: "config \<Rightarrow> world \<Rightarrow> string \<Rightarrow> string \<Rightarrow> string \<Rightarrow> json" where
  "generate_script cfg w topic research_brief tone =
     (if MINIMAX_API_KEY cfg = [] then placeholder_script topic
      else case generate_script_try w topic research_brief tone of
             Inr script \<Rightarrow> script
           | Inl e \<Rightarrow> placeholder_script topic)"

section \<open>Voice generation\<close>

text \<open>\<^verbatim>\<open>f"{i:03d}"\<close>: the decimal digits of \<open>i\<close>, padded with zeros to three characters.\<close>

definition digit :: "nat \<Rightarrow> char" where
  "digit d = char_of (48 + d)"

fun decimal :: "nat \<Rightarrow> string" where
  "decimal n = (if n < 10 then [digit n] else decimal (n div 10) @ [digit (n mod 10)])"

definition zfill3 :: "string \<Rightarrow> string" where
  "zfill3 s = replicate (3 - length s) (CHR ''0'') @ s"

definition clip_name :: "nat \<Rightarrow> string \<Rightarrow> string" where
  "clip_name i speaker_lower = zfill3 (decimal i) @ ''_'' @ speaker_lower @ ''.mp3''"

definition clips_dir :: "string \<Rightarrow> path" where
  "clips_dir job_id = path_div (path_div OUTPUT_DIR job_id) ''clips''"

definition select_voice :: "config \<Rightarrow> json \<Rightarrow> string" where
  "select_voice cfg speaker =
     (if speaker = JStr ''Alex'' then ELEVENLABS_VOICE_ALEX cfg else ELEVENLABS_VOICE_SAM cfg)"

definition write_bytes :: "world \<Rightarrow> path \<Rightarrow> string \<Rightarrow> state \<Rightarrow> (exn + unit) \<times> state" where
  "write_bytes w p content st =
     (case write_error w p of
        Some e \<Rightarrow> (Inl e, st)
      | None \<Rightarrow> (Inr (), st\<lparr>files := (files st)(p \<mapsto> content)\<rparr>))"

text \<open>
  The \<^verbatim>\<open>try\<close> block of one line: the speech request, the clip path (calling
  \<^verbatim>\<open>speaker.lower()\<close>), the write.
\<close>

definition synthesize_line ::
  "config \<Rightarrow> world \<Rightarrow> string \<Rightarrow> nat \<Rightarrow> json \<Rightarrow> json \<Rightarrow> state \<Rightarrow> (exn + path) \<times> state" where
  "synthesize_line cfg w job_id i speaker text st =
     (case text_to_speech w i (select_voice cfg speaker) text of
        Inl e \<Rightarrow> (Inl e, st)
      | Inr content \<Rightarrow>
        (case str_lower speaker of
           Inl e \<Rightarrow> (Inl e, st)
         | Inr low \<Rightarrow>
           (let clip_path = path_div (clips_dir job_id) (clip_name i low) in
            case write_bytes w clip_path content st of
              (Inl e, st') \<Rightarrow> (Inl e, st')
            | (Inr u, st') \<Rightarrow> (Inr clip_path, st'))))"

text \<open>
  The loop over \<^verbatim>\<open>enumerate(script)\<close>. The two field lookups stand before the
  \<^verbatim>\<open>try\<close>: an exception there leaves the function. An exception inside the \<^verbatim>\<open>try\<close>
  skips the line.
\<close>

fun voice_loop ::
  "config \<Rightarrow> world \<Rightarrow> string \<Rightarrow> nat \<Rightarrow> json list \<Rightarrow> path list \<Rightarrow> state
     \<Rightarrow> (exn + path list) \<times> state" where
  "voice_loop cfg w job_id i [] clip_paths st = (Inr clip_paths, st)"
| "voice_loop cfg w job_id i (line # rest) clip_paths st =
     (case getitem_key line ''speaker'' of
        Inl e \<Rightarrow> (Inl e, st)
      | Inr speaker \<Rightarrow>
        (case getitem_key line ''text'' of
           Inl e \<Rightarrow> (Inl e, st)
         | Inr text \<Rightarrow>
           (case synthesize_line cfg w job_id i speaker text st of
              (Inl e, st') \<Rightarrow> voice_loop cfg w job_id (Suc i) rest clip_paths st'
            | (Inr clip_path, st') \<Rightarrow>
                voice_loop cfg w job_id (Suc i) rest (clip_paths @ [clip_path]) st')))"

text \<open>
  \<^verbatim>\<open>generate_voice_clips\<close>: the clip directory is made first, before the credentials
  are looked at.
\<close>

definition generate_voice_clips ::
  "config \<Rightarrow> world \<Rightarrow> json \<Rightarrow> string \<Rightarrow> state \<Rightarrow> (exn + path list) \<times> state" where
  "generate_voice_clips cfg w script job_id st =
     (case mkdir_error w (clips_dir job_id) of
        Some e \<Rightarrow> (Inl e, st)
      | None \<Rightarrow>
          if ELEVENLABS_API_KEY cfg = [] then (Inr [], st)
          else case iter script of
                 Inl e \<Rightarrow> (Inl e, st)
               | Inr lines \<Rightarrow> voice_loop cfg w job_id 0 lines [] st)"

section \<open>Jingle generation\<close>

definition jingle_path_of :: "string \<Rightarrow> path" where
  "jingle_path_of job_id = path_div (path_div OUTPUT_DIR job_id) ''jingle.mp3''"

text \<open>What one poll does once the status came back as \<^verbatim>\<open>Success\<close>.\<close>

definition download_jingle ::
  "world \<Rightarrow> string \<Rightarrow> json \<Rightarrow> state \<Rightarrow> (exn + path option) \<times> state" where
  "download_jingle w job_id status_data st =
     (case andthen (dict_get status_data ''file'' (JObj []))
             (\<lambda>file. dict_get file ''download_url'' JNull) of
        Inl e \<Rightarrow> (Inl e, st)
      | Inr audio_url \<Rightarrow>
          if \<not> truthy audio_url then (Inr None, st)
          else
            (case http_get_bytes w audio_url of
               Inl e \<Rightarrow> (Inl e, st)
             | Inr content \<Rightarrow>
               (case write_bytes w (jingle_path_of job_id) content st of
                  (Inl e, st') \<Rightarrow> (Inl e, st')
                | (Inr u, st') \<Rightarrow> (Inr (Some (jingle_path_of job_id)), st'))))"

text \<open>
  \<^verbatim>\<open>for attempt in range(30)\<close>: the loop runs over the list of attempt numbers. Each
  turn sleeps two seconds and sends one status request.
\<close>

fun poll_loop ::
  "world \<Rightarrow> string \<Rightarrow> json \<Rightarrow> nat list \<Rightarrow> state \<Rightarrow> (exn + path option) \<times> state" where
  "poll_loop w job_id task_id [] st = (Inr None, st)"
| "poll_loop w job_id task_id (attempt # rest) st =
     (let st1 = st\<lparr>slept := slept st + 2\<rparr>;
          st2 = st1\<lparr>status_polls := status_polls st1 + 1\<rparr>
      in case music_query w attempt task_id of
           Inl e \<Rightarrow> (Inl e, st2)
         | Inr status_data \<Rightarrow>
           (case dict_get status_data ''status'' JNull of
              Inl e \<Rightarrow> (Inl e, st2)
            | Inr status \<Rightarrow>
                if status = JStr ''Success'' then download_jingle w job_id status_data st2
                else if status = JStr ''Failed'' then (Inr None, st2)
                else poll_loop w job_id task_id rest st2))"

definition generate_jingle_try ::
  "world \<Rightarrow> string \<Rightarrow> state \<Rightarrow> (exn + path option) \<times> state" where
  "generate_jingle_try w job_id st =
     (case music_submit w of
        Inl e \<Rightarrow> (Inl e, st)
      | Inr task_data \<Rightarrow>
        (case contains task_data ''task_id'' of
           Inl e \<Rightarrow> (Inl e, st)
         | Inr has_id \<Rightarrow>
             if \<not> has_id then (Inr None, st)
             else
               (case getitem_key task_data ''task_id'' of
                  Inl e \<Rightarrow> (Inl e, st)
                | Inr task_id \<Rightarrow> poll_loop w job_id task_id [0..<30] st)))"

definition generate_jingle ::
  "config \<Rightarrow> world \<Rightarrow> string \<Rightarrow> string \<Rightarrow> state \<Rightarrow> path option \<times> state" where
  "generate_jingle cfg w topic job_id st =
     (if MINIMAX_API_KEY cfg = [] \<or> MINIMAX_GROUP_ID cfg = [] then (None, st)
      else case generate_jingle_try w job_id st of
             (Inl e, st') \<Rightarrow> (None, st')
           | (Inr r, st') \<Rightarrow> (r, st'))"

section \<open>Stitching\<close>

definition from_mp3 :: "world \<Rightarrow> state \<Rightarrow> path \<Rightarrow> exn + audio" where
  "from_mp3 w st p =
     (case files st p of
        None \<Rightarrow> Inl OSError
      | Some content \<Rightarrow>
        (case mp3_duration w content of
           None \<Rightarrow> Inl CouldntDecodeError
         | Some d \<Rightarrow> Inr (Decoded content d)))"

definition export :: "world \<Rightarrow> audio \<Rightarrow> path \<Rightarrow> state \<Rightarrow> (exn + path) \<times> state" where
  "export w a p st =
     (case write_bytes w p (mp3_encode w a) st of
        (Inl e, st') \<Rightarrow> (Inl e, st')
      | (Inr u, st') \<Rightarrow> (Inr p, st'))"

definition final_path_of :: "string \<Rightarrow> path" where
  "final_path_of job_id = path_div (path_div OUTPUT_DIR job_id) ''podcast.mp3''"

definition bell_file :: path where
  "bell_file = parts ''static/bell.mp3''"

text \<open>
  The synthetic bell. Each \<^verbatim>\<open>bell += tone\<close> is pydub's \<^verbatim>\<open>+\<close> on two segments, which
  appends.
\<close>

definition synthetic_bell :: audio where
  "synthetic_bell =
     (let dur = 800;
          bell = Gain (- 6) (Sine 659 dur);
          bell = Append bell (Gain (- 12) (Sine (659 * 2) dur));
          bell = Append bell (Gain (- 15) (Sine (659 * 3) dur))
      in FadeOut 600 bell)"

text \<open>
  The chime as the specification words it: the three tones mixed into one tone of
  800 ms, then faded out.
\<close>

definition spec_chime :: audio where
  "spec_chime =
     FadeOut 600
       (Overlay (Overlay (Gain (- 6) (Sine 659 800)) (Gain (- 12) (Sine (659 * 2) 800)))
          (Gain (- 15) (Sine (659 * 3) 800)))"

definition create_bell_chime :: "world \<Rightarrow> state \<Rightarrow> audio" where
  "create_bell_chime w st =
     (case files st bell_file of
        None \<Rightarrow> synthetic_bell
      | Some content \<Rightarrow>
          if length content > 100 then
            (case from_mp3 w st bell_file of
               Inr a \<Rightarrow> a
             | Inl e \<Rightarrow> synthetic_bell)
          else synthetic_bell)"

text \<open>The loop \<^verbatim>\<open>podcast += clip + silence\<close> over the sorted paths.\<close>

fun conversation :: "world \<Rightarrow> state \<Rightarrow> path list \<Rightarrow> audio \<Rightarrow> exn + audio" where
  "conversation w st [] podcast = Inr podcast"
| "conversation w st (clip_path # rest) podcast =
     (case from_mp3 w st clip_path of
        Inl e \<Rightarrow> Inl e
      | Inr clip \<Rightarrow> conversation w st rest (Append podcast (Append clip (Silent 400))))"

definition sections :: "world \<Rightarrow> state \<Rightarrow> path option \<Rightarrow> audio \<Rightarrow> exn + audio \<times> audio" where
  "sections w st jingle_path bell =
     (if jingle_path \<noteq> None \<and> files st (the jingle_path) \<noteq> None then
        (case from_mp3 w st (the jingle_path) of
           Inl e \<Rightarrow> Inl e
         | Inr jingle \<Rightarrow>
           (let intro_jingle = FadeOut 2000 (First 12000 (FadeIn 2000 jingle));
                intro_section =
                  Append (Append (Append intro_jingle (Silent 300)) bell) (Silent 800);
                outro_jingle = FadeOut 3000 (First 8000 (FadeIn 1000 jingle));
                outro_section =
                  Append (Append (Append (Silent 500) bell) (Silent 300)) outro_jingle
            in Inr (intro_section, outro_section)))
      else Inr (Append bell (Silent 1000), Append (Silent 800) bell))"

text \<open>The master that \<^verbatim>\<open>stitch_podcast\<close> builds from a non-empty clip list.\<close>

definition assemble :: "world \<Rightarrow> state \<Rightarrow> path list \<Rightarrow> path option \<Rightarrow> exn + audio" where
  "assemble w st clip_paths jingle_path =
     andthen (conversation w st (sort clip_paths) Empty) (\<lambda>podcast.
     andthen (sections w st jingle_path (create_bell_chime w st)) (\<lambda>(intro_section, outro_section).
       Inr (Normalize (Append (Append intro_section podcast) outro_section))))"

definition stitch_podcast ::
  "world \<Rightarrow> path list \<Rightarrow> path option \<Rightarrow> string \<Rightarrow> state \<Rightarrow> (exn + path) \<times> state" where
  "stitch_podcast w clip_paths jingle_path job_id st =
     (let final_path = final_path_of job_id in
      if clip_paths = [] then export w (Silent 1000) final_path st
      else case assemble w st clip_paths jingle_path of
             Inl e \<Rightarrow> (Inl e, st)
           | Inr podcast \<Rightarrow> export w podcast final_path st)"

section \<open>The generate route\<close>

datatype failure = HTTPException nat string | Unhandled exn

text \<open>\<^verbatim>\<open>body.get(key, default).strip()\<close>.\<close>

definition body_field :: "json \<Rightarrow> string \<Rightarrow> string \<Rightarrow> exn + string" where
  "body_field body key dflt = andthen (dict_get body key (JStr dflt)) str_strip"

definition preview :: "string \<Rightarrow> string" where
  "preview research_brief =
     (if py_len research_brief > 500 then py_prefix 500 research_brief @ ''...''
      else research_brief)"

text \<open>
  The route after the request was accepted: the job id, the job directory, the stages,
  and the response. An exception of the directory, of the voice stage, of the assembly
  or of the response leaves the route; the other stages return on every path.
\<close>

definition run_pipeline ::
  "config \<Rightarrow> world \<Rightarrow> string \<Rightarrow> string \<Rightarrow> string \<Rightarrow> state \<Rightarrow> (failure + payload) \<times> state" where
  "run_pipeline cfg w topic0 url tone st =
     (let job_id = take 8 (uuid4 w) in
      case mkdir_error w (path_div OUTPUT_DIR job_id) of
        Some e \<Rightarrow> (Inl (Unhandled e), st)
      | None \<Rightarrow>
        (let research_brief = (if url \<noteq> [] then research_url w url else research_topic w topic0);
             topic = (if url \<noteq> [] \<and> topic0 = [] then ''Article from '' @ url else topic0);
             script = generate_script cfg w topic research_brief tone
         in case generate_voice_clips cfg w script job_id st of
              (Inl e, st1) \<Rightarrow> (Inl (Unhandled e), st1)
            | (Inr clip_paths, st1) \<Rightarrow>
              (case generate_jingle cfg w topic job_id st1 of
                 (jingle_path, st2) \<Rightarrow>
                 (case stitch_podcast w clip_paths jingle_path job_id st2 of
                    (Inl e, st3) \<Rightarrow> (Inl (Unhandled e), st3)
                  | (Inr final_path, st3) \<Rightarrow>
                    (let content =
                       \<lparr> out_job_id = job_id, out_topic = topic, out_tone = tone,
                         out_script = script,
                         out_research_brief = preview research_brief,
                         out_audio_url = (if files st3 final_path \<noteq> None
                                      then Some (''/output/'' @ job_id @ ''/podcast.mp3'')
                                      else None),
                         out_has_audio = (clip_paths \<noteq> []),
                         out_clip_count = length clip_paths \<rparr>
                     in case render_error w content of
                          Some e \<Rightarrow> (Inl (Unhandled e), st3)
                        | None \<Rightarrow> (Inr content, st3))))))"

definition generate_podcast ::
  "config \<Rightarrow> world \<Rightarrow> json \<Rightarrow> state \<Rightarrow> (failure + payload) \<times> state" where
  "generate_podcast cfg w body st =
     (case body_field body ''topic'' [] of
        Inl e \<Rightarrow> (Inl (Unhandled e), st)
      | Inr topic \<Rightarrow>
        (case body_field body ''url'' [] of
           Inl e \<Rightarrow> (Inl (Unhandled e), st)
         | Inr url \<Rightarrow>
           (case body_field body ''tone'' ''casual'' of
              Inl e \<Rightarrow> (Inl (Unhandled e), st)
            | Inr tone \<Rightarrow>
                if topic = [] \<and> url = [] then
                  (Inl (HTTPException 400 ''Provide a 'topic' or 'url'.''), st)
                else run_pipeline cfg w topic url tone st)))"

section \<open>Worlds and configurations for the examples\<close>

text \<open>
  \<open>offline\<close>: no service answers, nothing decodes, every directory, write and response
  succeeds.
  \<open>no_keys\<close> and \<open>all_keys\<close>: the environment without and with credentials.
\<close>

definition offline :: world where
  "offline = \<lparr> json_loads = (\<lambda>s. None), str_of = (\<lambda>v. ''?''),
               uuid4 = ''1b9d6bcd-bbfd-4b2d-9b5d-ab8dfbbd4bed'',
               wiki_search = (\<lambda>t. Inl HTTPError), wiki_extract = (\<lambda>t. Inl HTTPError),
               http_get_text = (\<lambda>u. Inl HTTPError), soup_get_text = (\<lambda>h. Inl OtherError),
               chat_completion = (\<lambda>p. Inl HTTPError),
               text_to_speech = (\<lambda>i v t. Inl HTTPError),
               music_submit = Inl HTTPError, music_query = (\<lambda>a t. Inl HTTPError),
               http_get_bytes = (\<lambda>u. Inl HTTPError),
               write_error = (\<lambda>p. None),
               mp3_duration = (\<lambda>b. None), mp3_encode = (\<lambda>a. ''mp3''),
               mkdir_error = (\<lambda>p. None), render_error = (\<lambda>r. None) \<rparr>"

definition no_keys :: config where
  "no_keys = \<lparr> MINIMAX_API_KEY = [], MINIMAX_GROUP_ID = [], ELEVENLABS_API_KEY = [],
               ELEVENLABS_VOICE_ALEX = ''21m00Tcm4TlvDq8ikWAM'',
               ELEVENLABS_VOICE_SAM = ''AZnzlk1XvdvUeBnXmlld'' \<rparr>"

definition all_keys :: config where
  "all_keys = no_keys \<lparr> MINIMAX_API_KEY := ''mm-key'', MINIMAX_GROUP_ID := ''group'',
                         ELEVENLABS_API_KEY := ''el-key'' \<rparr>"

definition fresh :: state where
  "fresh = \<lparr> files = (\<lambda>p. None), slept = 0, status_polls = 0 \<rparr>"

text \<open>
  Worlds in which one service answers: a completion that is no JSON, a completion
  without choices, a title search without a match, a page whose text is blank.
\<close>

definition chat_reply :: "json \<Rightarrow> json" where
  "chat_reply content =
     JObj [(''choices'', JArr [JObj [(''message'', JObj [(''content'', content)])]])]"

definition garbage_chat :: world where
  "garbage_chat = offline \<lparr> chat_completion := (\<lambda>p. Inr (chat_reply (JStr ''no json here''))) \<rparr>"

definition empty_chat :: world where
  "empty_chat = offline \<lparr> chat_completion := (\<lambda>p. Inr (JObj [])) \<rparr>"

text \<open>A completion that is the empty JSON array, with the decoder's value on that text.\<close>

definition empty_array_chat :: world where
  "empty_array_chat = offline \<lparr>
     json_loads := (\<lambda>s. if s = ''[]'' then Some (JArr []) else None),
     chat_completion := (\<lambda>p. Inr (chat_reply (JStr ''[]''))) \<rparr>"

definition no_article :: world where
  "no_article = offline \<lparr> wiki_search := (\<lambda>t. Inr (JArr [JStr t, JArr [], JArr [], JArr []])) \<rparr>"

definition blank_page :: world where
  "blank_page = offline \<lparr> http_get_text := (\<lambda>u. Inr ''<script>x</script>''),
                          soup_get_text := (\<lambda>h. Inr [CHR 0x0A, CHR '' '', CHR 0x0A]) \<rparr>"

text \<open>A speech service that answers only requests for Sam's voice.\<close>

definition sam_only :: world where
  "sam_only = offline \<lparr> text_to_speech :=
     (\<lambda>i v t. if v = ''AZnzlk1XvdvUeBnXmlld'' then Inr ''audio'' else Inl HTTPError) \<rparr>"

text \<open>
  Music services that accept the task and then keep it pending for ever, report a
  failure at attempt 3, break at attempt 2, or deliver the jingle at attempt 5.
\<close>

definition task_reply :: json where
  "task_reply = JObj [(''task_id'', JStr ''t1'')]"

definition status_reply :: "string \<Rightarrow> json" where
  "status_reply s = JObj [(''status'', JStr s)]"

definition always_pending :: world where
  "always_pending = offline \<lparr> music_submit := Inr task_reply,
     music_query := (\<lambda>a t. Inr (status_reply ''Processing'')) \<rparr>"

definition fails_at_3 :: world where
  "fails_at_3 = offline \<lparr> music_submit := Inr task_reply,
     music_query := (\<lambda>a t. Inr (status_reply (if a = 3 then ''Failed'' else ''Processing''))) \<rparr>"

definition breaks_at_2 :: world where
  "breaks_at_2 = offline \<lparr> music_submit := Inr task_reply,
     music_query := (\<lambda>a t. if a = 2 then Inl HTTPError else Inr (status_reply ''Processing'')) \<rparr>"

definition success_reply :: json where
  "success_reply =
     JObj [(''status'', JStr ''Success''),
           (''file'', JObj [(''download_url'', JStr ''http://cdn.example/j.mp3'')])]"

definition succeeds_at_5 :: world where
  "succeeds_at_5 = offline \<lparr> music_submit := Inr task_reply,
     music_query := (\<lambda>a t. if a = 5 then Inr success_reply else Inr (status_reply ''Processing'')),
     http_get_bytes := (\<lambda>u. Inr ''jingle'') \<rparr>"

text \<open>
  Speech services that fail on line 2 only, or never; a script of five lines and one of
  1001 lines; the clip of line \<open>i\<close> of the long script.
\<close>

definition fails_line_2 :: world where
  "fails_line_2 = offline \<lparr> text_to_speech :=
     (\<lambda>i v t. if i = 2 then Inl HTTPError else Inr ''audio'') \<rparr>"

definition speaks :: world where
  "speaks = offline \<lparr> text_to_speech := (\<lambda>i v t. Inr ''audio'') \<rparr>"

definition five_lines :: "json list" where
  "five_lines = [dialogue ''Alex'' ''One.'', dialogue ''Sam'' ''Two.'', dialogue ''Alex'' ''Three.'',
                 dialogue ''Sam'' ''Four.'', dialogue ''Alex'' ''Five.'']"

definition long_script :: "json list" where
  "long_script = replicate 1001 (dialogue ''Sam'' ''Hi.'')"

definition sam_clip :: "nat \<Rightarrow> path" where
  "sam_clip i = path_div (clips_dir ''1b9d6bcd'') (clip_name i ''sam'')"

text \<open>
  A decoder that accepts every file, and a state that holds the clips of lines 101 and
  1000 of the long script.
\<close>

definition decoding :: world where
  "decoding = offline \<lparr> mp3_duration := (\<lambda>b. if b = ''a'' then Some 2000 else Some 3000) \<rparr>"

definition two_clips :: state where
  "two_clips = fresh \<lparr> files := (files fresh)(sam_clip 101 \<mapsto> ''a'', sam_clip 1000 \<mapsto> ''b'') \<rparr>"

text \<open>
  A completion whose only line has no speaker, with the decoder's value on that text;
  and a speech service whose answer is no audio.
\<close>

definition no_speaker_text :: string where
  \<open>no_speaker_text = ''[{"text":"hi"}]''\<close>

definition no_speaker_chat :: world where
  "no_speaker_chat = offline \<lparr>
     json_loads := (\<lambda>s. if s = no_speaker_text then Some (JArr [JObj [(''text'', JStr ''hi'')]])
                         else None),
     chat_completion := (\<lambda>p. Inr (chat_reply (JStr no_speaker_text))) \<rparr>"

section \<open>Notions used to state the properties\<close>

text \<open>
  The status the service reports at one poll, and a poll that reports neither
  \<^verbatim>\<open>Success\<close> nor \<^verbatim>\<open>Failed\<close>.
\<close>

definition poll_status :: "world \<Rightarrow> json \<Rightarrow> nat \<Rightarrow> exn + json" where
  "poll_status w task_id attempt =
     andthen (music_query w attempt task_id) (\<lambda>status_data. dict_get status_data ''status'' JNull)"

definition pending :: "world \<Rightarrow> json \<Rightarrow> nat \<Rightarrow> bool" where
  "pending w task_id attempt =
     (case poll_status w task_id attempt of
        Inl e \<Rightarrow> False
      | Inr status \<Rightarrow> status \<noteq> JStr ''Success'' \<and> status \<noteq> JStr ''Failed'')"

text \<open>The state after \<open>n\<close> polls.\<close>

definition after_polls :: "nat \<Rightarrow> state \<Rightarrow> state" where
  "after_polls n st = st\<lparr>slept := slept st + 2 * n, status_polls := status_polls st + n\<rparr>"

text \<open>Credentials are set and the submission gave the task handle \<open>task_id\<close>.\<close>

definition submitted :: "config \<Rightarrow> world \<Rightarrow> json \<Rightarrow> bool" where
  "submitted cfg w task_id =
     (MINIMAX_API_KEY cfg \<noteq> [] \<and> MINIMAX_GROUP_ID cfg \<noteq> []
      \<and> (case music_submit w of
            Inl e \<Rightarrow> False
          | Inr task_data \<Rightarrow>
              contains task_data ''task_id'' = Inr True
              \<and> getitem_key task_data ''task_id'' = Inr task_id))"

text \<open>
  A line that has both fields, and the clip one line gives when its request and its
  write succeed. The outcome of a line does not depend on the files written so far.
\<close>

definition has_fields :: "json \<Rightarrow> bool" where
  "has_fields line =
     (case (getitem_key line ''speaker'', getitem_key line ''text'') of
        (Inr speaker, Inr text) \<Rightarrow> True
      | _ \<Rightarrow> False)"

definition line_clip :: "config \<Rightarrow> world \<Rightarrow> string \<Rightarrow> nat \<times> json \<Rightarrow> path option" where
  "line_clip cfg w job_id il =
     (case (getitem_key (snd il) ''speaker'', getitem_key (snd il) ''text'') of
        (Inr speaker, Inr text) \<Rightarrow>
          (case (text_to_speech w (fst il) (select_voice cfg speaker) text, str_lower speaker) of
             (Inr content, Inr low) \<Rightarrow>
               (let clip_path = path_div (clips_dir job_id) (clip_name (fst il) low) in
                if write_error w clip_path = None then Some clip_path else None)
           | _ \<Rightarrow> None)
      | _ \<Rightarrow> None)"

text \<open>A clip file that decodes, and what it decodes to.\<close>

definition decodable :: "world \<Rightarrow> state \<Rightarrow> path \<Rightarrow> bool" where
  "decodable w st p = (case from_mp3 w st p of Inr a \<Rightarrow> True | Inl e \<Rightarrow> False)"

definition decoded :: "world \<Rightarrow> state \<Rightarrow> path \<Rightarrow> audio" where
  "decoded w st p = (case from_mp3 w st p of Inr a \<Rightarrow> a | Inl e \<Rightarrow> Empty)"

text \<open>The path of the clip of line \<open>i\<close> with lowered speaker label \<open>low\<close>.\<close>

definition clip_path :: "string \<Rightarrow> nat \<times> string \<Rightarrow> path" where
  "clip_path job_id il = path_div (clips_dir job_id) (clip_name (fst il) (snd il))"

text \<open>
  The values the route computes before the voice stage: the job id, the research brief,
  the resolved topic and the script.
\<close>

definition job_of :: "world \<Rightarrow> string" where
  "job_of w = take 8 (uuid4 w)"

definition brief_of :: "world \<Rightarrow> string \<Rightarrow> string \<Rightarrow> string" where
  "brief_of w topic0 url = (if url \<noteq> [] then research_url w url else research_topic w topic0)"

definition topic_of :: "string \<Rightarrow> string \<Rightarrow> string" where
  "topic_of topic0 url = (if url \<noteq> [] \<and> topic0 = [] then ''Article from '' @ url else topic0)"

definition script_of :: "config \<Rightarrow> world \<Rightarrow> string \<Rightarrow> string \<Rightarrow> string \<Rightarrow> json" where
  "script_of cfg w topic0 url tone =
     generate_script cfg w (topic_of topic0 url) (brief_of w topic0 url) tone"

text \<open>
  The response of a job that produced the clips \<open>clips\<close>; \<open>master\<close> tells whether the
  master file was found.
\<close>

definition response_of ::
  "config \<Rightarrow> world \<Rightarrow> string \<Rightarrow> string \<Rightarrow> string \<Rightarrow> path list \<Rightarrow> bool \<Rightarrow> payload" where
  "response_of cfg w topic0 url tone clips master =
     \<lparr> out_job_id = job_of w, out_topic = topic_of topic0 url, out_tone = tone,
       out_script = script_of cfg w topic0 url tone,
       out_research_brief = preview (brief_of w topic0 url),
       out_audio_url = (if master then Some (''/output/'' @ job_of w @ ''/podcast.mp3'') else None),
       out_has_audio = (clips \<noteq> []),
       out_clip_count = length clips \<rparr>"

section \<open>Properties of the script parser\<close>

subsection \<open>Whitespace and fence stripping\<close>


































subsection \<open>Claim C8: what the parser extracts\<close>





section \<open>Properties of the stages\<close>

subsection \<open>Sequencing of fallible steps\<close>

lemma andthen_simps [simp]:
  "andthen (Inl e) f = Inl e" "andthen (Inr x) f = f x"
  by (simp_all add: andthen_def)

lemma andthen_Inr_iff: "andthen r f = Inr y \<longleftrightarrow> (\<exists>x. r = Inr x \<and> f x = Inr y)"
  by (cases r) simp_all


subsection \<open>Claim C7: the placeholder script\<close>

lemma placeholder_script_shape:
  "len (placeholder_script topic) = Inr 10
   \<and> (\<exists>lines. iter (placeholder_script topic) = Inr lines
        \<and> map (\<lambda>l. getitem_key l ''speaker'') lines
            = map (\<lambda>s. Inr (JStr s))
                [''Alex'', ''Sam'', ''Alex'', ''Sam'', ''Alex'', ''Sam'', ''Alex'', ''Sam'', ''Alex'', ''Sam'']
        \<and> getitem_key (hd lines) ''text''
            = Inr (JStr (''Hey Sam, today we're diving into '' @ topic
                         @ ''. I've been really curious about this!'')))"
  by (simp add: placeholder_script_def dialogue_def)


text \<open>
  Claim C7, as the code has it. Without a text-generation key, or when anything in the
  \<^verbatim>\<open>try\<close> block of \<^verbatim>\<open>generate_script\<close> raises, the result is
  \<open>placeholder_script topic\<close>. A failed request, a response without a completion text,
  and a completion that does not parse are such errors. The placeholder has ten lines,
  Alex and Sam in turn, and its first line names the topic; being a function of the
  topic, it is the same every time. So the script is not empty on any of these paths.
  When nothing raises, the script is what the parser gave, whatever its length.
\<close>

theorem generate_script_placeholder:
  "(MINIMAX_API_KEY cfg = []
      \<longrightarrow> generate_script cfg w topic brief tone = placeholder_script topic)
   \<and> (\<forall>e. generate_script_try w topic brief tone = Inl e
      \<longrightarrow> generate_script cfg w topic brief tone = placeholder_script topic)
   \<and> (\<forall>e. chat_completion w (user_prompt topic tone brief) = Inl e
      \<longrightarrow> generate_script_try w topic brief tone = Inl e)
   \<and> (\<forall>data e. chat_completion w (user_prompt topic tone brief) = Inr data
         \<and> completion_content data = Inl e
      \<longrightarrow> generate_script_try w topic brief tone = Inl e)
   \<and> (\<forall>data t e. chat_completion w (user_prompt topic tone brief) = Inr data
         \<and> completion_content data = Inr (JStr t)
         \<and> parse_script_json (json_loads w) t = Inl e
      \<longrightarrow> generate_script_try w topic brief tone = Inl e)
   \<and> len (placeholder_script topic) = Inr 10
   \<and> (\<exists>lines. iter (placeholder_script topic) = Inr lines
        \<and> map (\<lambda>l. getitem_key l ''speaker'') lines
            = map (\<lambda>s. Inr (JStr s))
                [''Alex'', ''Sam'', ''Alex'', ''Sam'', ''Alex'', ''Sam'', ''Alex'', ''Sam'', ''Alex'', ''Sam'']
        \<and> getitem_key (hd lines) ''text''
            = Inr (JStr (''Hey Sam, today we're diving into '' @ topic
                         @ ''. I've been really curious about this!'')))
   \<and> (\<forall>data t xs. chat_completion w (user_prompt topic tone brief) = Inr data
         \<and> completion_content data = Inr (JStr t)
         \<and> parse_script_json (json_loads w) t = Inr (JArr xs)
      \<longrightarrow> generate_script_try w topic brief tone = Inr (JArr xs))
   \<and> (\<forall>script. MINIMAX_API_KEY cfg \<noteq> []
         \<and> generate_script_try w topic brief tone = Inr script
      \<longrightarrow> generate_script cfg w topic brief tone = script)"
  using placeholder_script_shape [of topic]
  by (auto simp: generate_script_def generate_script_try_def)

theorem generate_script_placeholder_witness:
  "MINIMAX_API_KEY no_keys = []
   \<and> generate_script no_keys offline ''black holes'' ''brief'' ''casual''
       = placeholder_script ''black holes''
   \<and> chat_completion offline (user_prompt ''black holes'' ''casual'' ''brief'') = Inl HTTPError
   \<and> generate_script_try offline ''black holes'' ''brief'' ''casual'' = Inl HTTPError
   \<and> generate_script all_keys offline ''black holes'' ''brief'' ''casual''
       = placeholder_script ''black holes''
   \<and> chat_completion empty_chat (user_prompt ''black holes'' ''casual'' ''brief'') = Inr (JObj [])
   \<and> completion_content (JObj []) = Inl KeyError
   \<and> generate_script_try empty_chat ''black holes'' ''brief'' ''casual'' = Inl KeyError
   \<and> chat_completion garbage_chat (user_prompt ''black holes'' ''casual'' ''brief'')
       = Inr (chat_reply (JStr ''no json here''))
   \<and> completion_content (chat_reply (JStr ''no json here'')) = Inr (JStr ''no json here'')
   \<and> parse_script_json (json_loads garbage_chat) ''no json here'' = Inl ValueError
   \<and> generate_script_try garbage_chat ''black holes'' ''brief'' ''casual'' = Inl ValueError
   \<and> generate_script all_keys garbage_chat ''black holes'' ''brief'' ''casual''
       = placeholder_script ''black holes''
   \<and> chat_completion no_speaker_chat (user_prompt ''black holes'' ''casual'' ''brief'')
       = Inr (chat_reply (JStr no_speaker_text))
   \<and> completion_content (chat_reply (JStr no_speaker_text)) = Inr (JStr no_speaker_text)
   \<and> parse_script_json (json_loads no_speaker_chat) no_speaker_text
       = Inr (JArr [JObj [(''text'', JStr ''hi'')]])
   \<and> MINIMAX_API_KEY all_keys \<noteq> []
   \<and> generate_script_try no_speaker_chat ''black holes'' ''brief'' ''casual''
       = Inr (JArr [JObj [(''text'', JStr ''hi'')]])
   \<and> generate_script all_keys no_speaker_chat ''black holes'' ''brief'' ''casual''
       = JArr [JObj [(''text'', JStr ''hi'')]]"
proof -
  have k: "MINIMAX_API_KEY no_keys = []" by (simp add: no_keys_def)
  have c1: "generate_script no_keys offline ''black holes'' ''brief'' ''casual''
       = placeholder_script ''black holes''"
    using generate_script_placeholder [of no_keys offline "''black holes''" "''brief'' " "''casual''"] k
    by blast
  have h2: "chat_completion offline (user_prompt ''black holes'' ''casual'' ''brief'') = Inl HTTPError"
    by (simp add: offline_def)
  have c2: "generate_script_try offline ''black holes'' ''brief'' ''casual'' = Inl HTTPError"
    using generate_script_placeholder [of all_keys offline "''black holes''" "''brief'' " "''casual''"] h2
    by blast
  have c2': "generate_script all_keys offline ''black holes'' ''brief'' ''casual''
       = placeholder_script ''black holes''"
    using generate_script_placeholder [of all_keys offline "''black holes''" "''brief'' " "''casual''"] c2
    by blast
  have h3: "chat_completion empty_chat (user_prompt ''black holes'' ''casual'' ''brief'') = Inr (JObj [])"
    by (simp add: empty_chat_def offline_def)
  have h3': "completion_content (JObj []) = Inl KeyError"
    by (simp add: completion_content_def)
  have c3: "generate_script_try empty_chat ''black holes'' ''brief'' ''casual'' = Inl KeyError"
    using generate_script_placeholder [of all_keys empty_chat "''black holes''" "''brief'' " "''casual''"]
      h3 h3' by blast
  have h4: "chat_completion garbage_chat (user_prompt ''black holes'' ''casual'' ''brief'')
       = Inr (chat_reply (JStr ''no json here''))"
    by (simp add: garbage_chat_def offline_def)
  have h4': "completion_content (chat_reply (JStr ''no json here'')) = Inr (JStr ''no json here'')"
    by (simp add: completion_content_def chat_reply_def)
  have h4'': "parse_script_json (json_loads garbage_chat) ''no json here'' = Inl ValueError"
    by (simp add: garbage_chat_def offline_def parse_script_json_def split: option.splits)
  have c4: "generate_script_try garbage_chat ''black holes'' ''brief'' ''casual'' = Inl ValueError"
    using generate_script_placeholder [of all_keys garbage_chat "''black holes''" "''brief'' " "''casual''"]
      h4 h4' h4'' by blast
  have c4': "generate_script all_keys garbage_chat ''black holes'' ''brief'' ''casual''
       = placeholder_script ''black holes''"
    using generate_script_placeholder [of all_keys garbage_chat "''black holes''" "''brief'' " "''casual''"]
      c4 by blast
  have h5: "chat_completion no_speaker_chat (user_prompt ''black holes'' ''casual'' ''brief'')
       = Inr (chat_reply (JStr no_speaker_text))"
    by (simp add: no_speaker_chat_def offline_def)
  have h5': "completion_content (chat_reply (JStr no_speaker_text)) = Inr (JStr no_speaker_text)"
    by (simp add: completion_content_def chat_reply_def)
  have sc: "strip_code_fence no_speaker_text = no_speaker_text"
    by code_simp
  have h5'': "parse_script_json (json_loads no_speaker_chat) no_speaker_text
       = Inr (JArr [JObj [(''text'', JStr ''hi'')]])"
    unfolding parse_script_json_def Let_def sc by (simp add: no_speaker_chat_def offline_def)
  have k5: "MINIMAX_API_KEY all_keys \<noteq> []"
    by (simp add: all_keys_def no_keys_def)
  have c5: "generate_script_try no_speaker_chat ''black holes'' ''brief'' ''casual''
       = Inr (JArr [JObj [(''text'', JStr ''hi'')]])"
    using generate_script_placeholder [of all_keys no_speaker_chat "''black holes''" "''brief'' " "''casual''"]
      h5 h5' h5'' by blast
  have c5': "generate_script all_keys no_speaker_chat ''black holes'' ''brief'' ''casual''
       = JArr [JObj [(''text'', JStr ''hi'')]]"
    using generate_script_placeholder [of all_keys no_speaker_chat "''black holes''" "''brief'' " "''casual''"]
      k5 c5 by blast
  show ?thesis using k c1 h2 c2 c2' h3 h3' c3 h4 h4' h4'' c4 c4' h5 h5' h5'' k5 c5 c5' by blast
qed

text \<open>
  Claim C7 as worded concludes that the pipeline always has a non-empty script. A
  completion that is the empty array \<^verbatim>\<open>[]\<close> parses to a list, nothing raises, and
  \<^verbatim>\<open>generate_script\<close> returns that list: a script of no lines, not the placeholder.
\<close>

theorem generate_script_empty_counterexample:
  "MINIMAX_API_KEY all_keys \<noteq> []
   \<and> chat_completion empty_array_chat (user_prompt ''black holes'' ''casual'' ''brief'')
       = Inr (chat_reply (JStr ''[]''))
   \<and> parse_script_json (json_loads empty_array_chat) ''[]'' = Inr (JArr [])
   \<and> generate_script all_keys empty_array_chat ''black holes'' ''brief'' ''casual'' = JArr []
   \<and> len (generate_script all_keys empty_array_chat ''black holes'' ''brief'' ''casual'') = Inr 0
   \<and> generate_script all_keys empty_array_chat ''black holes'' ''brief'' ''casual''
       \<noteq> placeholder_script ''black holes''"
proof -
  have k: "MINIMAX_API_KEY all_keys \<noteq> []"
    by (simp add: all_keys_def no_keys_def)
  have c: "chat_completion empty_array_chat (user_prompt ''black holes'' ''casual'' ''brief'')
       = Inr (chat_reply (JStr ''[]''))"
    by (simp add: empty_array_chat_def offline_def)
  have cc: "completion_content (chat_reply (JStr ''[]'')) = Inr (JStr ''[]'')"
    by (simp add: completion_content_def chat_reply_def)
  have sc: "strip_code_fence ''[]'' = ''[]''"
    by code_simp
  have p: "parse_script_json (json_loads empty_array_chat) ''[]'' = Inr (JArr [])"
    unfolding parse_script_json_def Let_def sc by (simp add: empty_array_chat_def offline_def)
  have t: "generate_script_try empty_array_chat ''black holes'' ''brief'' ''casual'' = Inr (JArr [])"
    unfolding generate_script_try_def c by (simp add: cc p)
  have g: "generate_script all_keys empty_array_chat ''black holes'' ''brief'' ''casual'' = JArr []"
    unfolding generate_script_def using k by (simp add: t)
  have n: "JArr [] \<noteq> placeholder_script ''black holes''"
    by (simp add: placeholder_script_def)
  show ?thesis unfolding g using k c p n by simp
qed


subsection \<open>Claim C9: research never raises\<close>

lemma research_topic_try_nonempty: "research_topic_try w topic = Inr b \<Longrightarrow> b \<noteq> []"
  by (auto simp: research_topic_try_def andthen_Inr_iff split: if_splits)

lemma research_url_try_nonempty: "research_url_try w url = Inr b \<Longrightarrow> b \<noteq> []"
  by (auto simp: research_url_try_def andthen_Inr_iff Let_def split: if_splits)

lemma research_topic_nonempty: "research_topic w topic \<noteq> []"
  using research_topic_try_nonempty [of w topic]
  by (cases "research_topic_try w topic") (simp_all add: research_topic_def)

lemma research_url_nonempty: "research_url w url \<noteq> []"
  using research_url_try_nonempty [of w url]
  by (cases "research_url_try w url") (simp_all add: research_url_def)

lemma join_lines_empty: "join_lines ls = [] \<longleftrightarrow> ls = [] \<or> ls = [[]]"
  by (induction ls rule: join_lines.induct) auto


text \<open>
  Claim C9. \<^verbatim>\<open>research_topic\<close> and \<^verbatim>\<open>research_url\<close> return a text on every path: the
  exceptions of their \<^verbatim>\<open>try\<close> blocks end in the handler. A search without a match gives
  the brief with the topic and the "No Wikipedia article found" marker; a page whose
  text has only blank lines gives the "Page content was empty" marker; any exception
  gives the "lookup failed" or "Scraping failed" brief; and no brief is empty.
\<close>

theorem research_degrades:
  "(\<forall>sd titles. wiki_search w topic = Inr sd \<and> getitem_index sd 1 = Inr titles
        \<and> \<not> truthy titles
      \<longrightarrow> research_topic w topic
          = ''Topic: '' @ topic @ ''. (No Wikipedia article found '' @ em_dash
            @ '' generate from general knowledge.)'')
   \<and> (\<forall>html body. http_get_text w url = Inr html \<and> soup_get_text w html = Inr body
        \<and> (\<forall>l \<in> set (splitlines body). strip l = [])
      \<longrightarrow> research_url w url
          = ''Article URL: '' @ url @ ''. (Page content was empty '' @ em_dash
            @ '' generate from general knowledge.)'')
   \<and> (\<forall>e. research_topic_try w topic = Inl e
      \<longrightarrow> research_topic w topic
          = ''Topic: '' @ topic @ ''. (Wikipedia lookup failed '' @ em_dash
            @ '' generate from general knowledge.)'')
   \<and> (\<forall>e. research_url_try w url = Inl e
      \<longrightarrow> research_url w url
          = ''Article URL: '' @ url @ ''. (Scraping failed '' @ em_dash
            @ '' generate from general knowledge.)'')
   \<and> (\<forall>e. wiki_search w topic = Inl e \<longrightarrow> research_topic_try w topic = Inl e)
   \<and> (\<forall>e. http_get_text w url = Inl e \<longrightarrow> research_url_try w url = Inl e)
   \<and> research_topic w topic \<noteq> []
   \<and> research_url w url \<noteq> []"
proof (intro conjI allI impI)
  fix html body
  assume h: "http_get_text w url = Inr html \<and> soup_get_text w html = Inr body
        \<and> (\<forall>l \<in> set (splitlines body). strip l = [])"
  then have "filter (\<lambda>l. strip l \<noteq> []) (splitlines body) = []"
    by (simp add: filter_empty_conv)
  with h show "research_url w url
          = ''Article URL: '' @ url @ ''. (Page content was empty '' @ em_dash
            @ '' generate from general knowledge.)''"
    by (simp add: research_url_def research_url_try_def)
next
  show "research_topic w topic \<noteq> []" by (rule research_topic_nonempty)
  show "research_url w url \<noteq> []" by (rule research_url_nonempty)
qed (auto simp: research_topic_def research_topic_try_def research_url_def research_url_try_def)

theorem research_degrades_witness:
  "wiki_search no_article ''zzqx'' = Inr (JArr [JStr ''zzqx'', JArr [], JArr [], JArr []])
   \<and> getitem_index (JArr [JStr ''zzqx'', JArr [], JArr [], JArr []]) 1 = Inr (JArr [])
   \<and> \<not> truthy (JArr [])
   \<and> research_topic no_article ''zzqx''
       = ''Topic: zzqx. (No Wikipedia article found '' @ em_dash
         @ '' generate from general knowledge.)''
   \<and> http_get_text blank_page ''http://a.example'' = Inr ''<script>x</script>''
   \<and> soup_get_text blank_page ''<script>x</script>'' = Inr [CHR 0x0A, CHR '' '', CHR 0x0A]
   \<and> map strip (splitlines [CHR 0x0A, CHR '' '', CHR 0x0A]) = [[], []]
   \<and> research_url blank_page ''http://a.example''
       = ''Article URL: http://a.example. (Page content was empty '' @ em_dash
         @ '' generate from general knowledge.)''
   \<and> wiki_search offline ''zzqx'' = Inl HTTPError
   \<and> research_topic_try offline ''zzqx'' = Inl HTTPError
   \<and> research_topic offline ''zzqx''
       = ''Topic: zzqx. (Wikipedia lookup failed '' @ em_dash
         @ '' generate from general knowledge.)''
   \<and> http_get_text offline ''http://a.example'' = Inl HTTPError
   \<and> research_url_try offline ''http://a.example'' = Inl HTTPError
   \<and> research_url offline ''http://a.example''
       = ''Article URL: http://a.example. (Scraping failed '' @ em_dash
         @ '' generate from general knowledge.)''"
proof -
  note T1 = research_degrades [of no_article "''zzqx''" "''http://a.example''"]
  note T2 = research_degrades [of blank_page "''zzqx''" "''http://a.example''"]
  note T3 = research_degrades [of offline "''zzqx''" "''http://a.example''"]
  have a1: "wiki_search no_article ''zzqx'' = Inr (JArr [JStr ''zzqx'', JArr [], JArr [], JArr []])"
    by (simp add: no_article_def offline_def)
  have a2: "getitem_index (JArr [JStr ''zzqx'', JArr [], JArr [], JArr []]) 1 = Inr (JArr [])"
    by simp
  have a3: "\<not> truthy (JArr [])" by simp
  have c1: "research_topic no_article ''zzqx''
       = ''Topic: zzqx. (No Wikipedia article found '' @ em_dash
         @ '' generate from general knowledge.)''"
    using T1 [THEN conjunct1, rule_format, of "JArr [JStr ''zzqx'', JArr [], JArr [], JArr []]" "JArr []"]
      a1 a2 a3 by simp
  have b1: "http_get_text blank_page ''http://a.example'' = Inr ''<script>x</script>''"
    by (simp add: blank_page_def offline_def)
  have b2: "soup_get_text blank_page ''<script>x</script>'' = Inr [CHR 0x0A, CHR '' '', CHR 0x0A]"
    by (simp add: blank_page_def offline_def)
  have b0: "map strip (splitlines [CHR 0x0A, CHR '' '', CHR 0x0A]) = [[], []]"
    by code_simp
  have b3: "\<forall>l \<in> set (splitlines [CHR 0x0A, CHR '' '', CHR 0x0A]). strip l = []"
    by code_simp
  have c2: "research_url blank_page ''http://a.example''
       = ''Article URL: http://a.example. (Page content was empty '' @ em_dash
         @ '' generate from general knowledge.)''"
    using T2 [THEN conjunct2, THEN conjunct1, rule_format,
              of "''<script>x</script>''" "[CHR 0x0A, CHR '' '', CHR 0x0A]"] b1 b2 b3
    by simp
  have d1: "wiki_search offline ''zzqx'' = Inl HTTPError" by (simp add: offline_def)
  have d2: "research_topic_try offline ''zzqx'' = Inl HTTPError"
    using T3 d1 by blast
  have d3: "research_topic offline ''zzqx''
       = ''Topic: zzqx. (Wikipedia lookup failed '' @ em_dash
         @ '' generate from general knowledge.)''"
    using T3 [THEN conjunct2, THEN conjunct2, THEN conjunct1, rule_format, of HTTPError] d2 by simp
  have e1: "http_get_text offline ''http://a.example'' = Inl HTTPError" by (simp add: offline_def)
  have e2: "research_url_try offline ''http://a.example'' = Inl HTTPError"
    using T3 e1 by blast
  have e3: "research_url offline ''http://a.example''
       = ''Article URL: http://a.example. (Scraping failed '' @ em_dash
         @ '' generate from general knowledge.)''"
    using T3 [THEN conjunct2, THEN conjunct2, THEN conjunct2, THEN conjunct1, rule_format, of HTTPError]
      e2 by simp
  show ?thesis using a1 a2 a3 c1 b1 b2 b0 c2 d1 d2 d3 e1 e2 e3 by blast
qed

subsection \<open>Writing files\<close>

lemma write_bytes_ok:
  "write_error w p = None \<Longrightarrow>
     write_bytes w p content st = (Inr (), st\<lparr>files := (files st)(p \<mapsto> content)\<rparr>)"
  by (simp add: write_bytes_def)

lemma write_bytes_fail:
  "write_error w p = Some e \<Longrightarrow> write_bytes w p content st = (Inl e, st)"
  by (simp add: write_bytes_def)

lemma write_bytes_Inr:
  "write_bytes w p content st = (Inr u, st') \<Longrightarrow>
     st' = st\<lparr>files := (files st)(p \<mapsto> content)\<rparr> \<and> write_error w p = None"
  by (auto simp: write_bytes_def split: option.splits)

lemma write_bytes_counters:
  "write_bytes w p content st = (r, st') \<Longrightarrow>
     slept st' = slept st \<and> status_polls st' = status_polls st"
  by (auto simp: write_bytes_def split: option.splits)


subsection \<open>Claim C10: the voice of an unknown speaker\<close>

text \<open>
  Claim C10. A line whose speaker is a string other than \<^verbatim>\<open>Alex\<close> is sent to the speech
  service with Sam's voice. Nothing checks the label: the line gives a clip whenever the
  request and the write of the clip succeed, and the loop goes on with the next line.
\<close>

theorem unknown_speaker_uses_sam:
  "s \<noteq> ''Alex'' \<longrightarrow>
     select_voice cfg (JStr s) = ELEVENLABS_VOICE_SAM cfg
     \<and> synthesize_line cfg w job i (JStr s) body st
         = (case text_to_speech w i (ELEVENLABS_VOICE_SAM cfg) body of
              Inl e \<Rightarrow> (Inl e, st)
            | Inr content \<Rightarrow>
              (case write_error w (path_div (clips_dir job) (clip_name i (map lower_char s))) of
                 Some e \<Rightarrow> (Inl e, st)
               | None \<Rightarrow>
                 (Inr (path_div (clips_dir job) (clip_name i (map lower_char s))),
                  st\<lparr>files := (files st)
                     (path_div (clips_dir job) (clip_name i (map lower_char s)) \<mapsto> content)\<rparr>)))
     \<and> (\<forall>line content.
           getitem_key line ''speaker'' = Inr (JStr s) \<and> getitem_key line ''text'' = Inr body
           \<and> text_to_speech w i (ELEVENLABS_VOICE_SAM cfg) body = Inr content
           \<and> write_error w (path_div (clips_dir job) (clip_name i (map lower_char s))) = None
         \<longrightarrow> voice_loop cfg w job i (line # rest) clips st
             = voice_loop cfg w job (Suc i) rest
                 (clips @ [path_div (clips_dir job) (clip_name i (map lower_char s))])
                 (st\<lparr>files := (files st)
                     (path_div (clips_dir job) (clip_name i (map lower_char s)) \<mapsto> content)\<rparr>))"
proof (intro impI)
  assume ne: "s \<noteq> ''Alex''"
  let ?p = "path_div (clips_dir job) (clip_name i (map lower_char s))"
  have v: "select_voice cfg (JStr s) = ELEVENLABS_VOICE_SAM cfg"
    using ne by (simp add: select_voice_def)
  have sl: "synthesize_line cfg w job i (JStr s) body st
         = (case text_to_speech w i (ELEVENLABS_VOICE_SAM cfg) body of
              Inl e \<Rightarrow> (Inl e, st)
            | Inr content \<Rightarrow>
              (case write_error w ?p of
                 Some e \<Rightarrow> (Inl e, st)
               | None \<Rightarrow> (Inr ?p, st\<lparr>files := (files st)(?p \<mapsto> content)\<rparr>)))"
    unfolding synthesize_line_def v
    by (simp add: write_bytes_def Let_def split: sum.splits option.splits)
  have lp: "voice_loop cfg w job i (line # rest) clips st
             = voice_loop cfg w job (Suc i) rest (clips @ [?p])
                 (st\<lparr>files := (files st)(?p \<mapsto> content)\<rparr>)"
    if "getitem_key line ''speaker'' = Inr (JStr s) \<and> getitem_key line ''text'' = Inr body
           \<and> text_to_speech w i (ELEVENLABS_VOICE_SAM cfg) body = Inr content
           \<and> write_error w ?p = None" for line content
    using that by (simp add: sl)
  show "select_voice cfg (JStr s) = ELEVENLABS_VOICE_SAM cfg
     \<and> synthesize_line cfg w job i (JStr s) body st
         = (case text_to_speech w i (ELEVENLABS_VOICE_SAM cfg) body of
              Inl e \<Rightarrow> (Inl e, st)
            | Inr content \<Rightarrow>
              (case write_error w ?p of
                 Some e \<Rightarrow> (Inl e, st)
               | None \<Rightarrow> (Inr ?p, st\<lparr>files := (files st)(?p \<mapsto> content)\<rparr>)))
     \<and> (\<forall>line content.
           getitem_key line ''speaker'' = Inr (JStr s) \<and> getitem_key line ''text'' = Inr body
           \<and> text_to_speech w i (ELEVENLABS_VOICE_SAM cfg) body = Inr content
           \<and> write_error w ?p = None
         \<longrightarrow> voice_loop cfg w job i (line # rest) clips st
             = voice_loop cfg w job (Suc i) rest (clips @ [?p])
                 (st\<lparr>files := (files st)(?p \<mapsto> content)\<rparr>))"
    using v sl lp by blast
qed


lemma narrator_path:
  "path_div (clips_dir ''1b9d6bcd'') (clip_name 0 (map lower_char ''Narrator''))
     = [''output'', ''1b9d6bcd'', ''clips'', ''000_narrator.mp3'']"
  by code_simp

theorem unknown_speaker_uses_sam_witness:
  "''Narrator'' \<noteq> ''Alex''
   \<and> select_voice all_keys (JStr ''Narrator'') = ''AZnzlk1XvdvUeBnXmlld''
   \<and> getitem_key (dialogue ''Narrator'' ''Welcome.'') ''speaker'' = Inr (JStr ''Narrator'')
   \<and> getitem_key (dialogue ''Narrator'' ''Welcome.'') ''text'' = Inr (JStr ''Welcome.'')
   \<and> text_to_speech sam_only 0 (ELEVENLABS_VOICE_SAM all_keys) (JStr ''Welcome.'') = Inr ''audio''
   \<and> write_error sam_only [''output'', ''1b9d6bcd'', ''clips'', ''000_narrator.mp3''] = None
   \<and> fst (voice_loop all_keys sam_only ''1b9d6bcd'' 0 [dialogue ''Narrator'' ''Welcome.''] [] fresh)
       = Inr [[''output'', ''1b9d6bcd'', ''clips'', ''000_narrator.mp3'']]"
proof -
  note T = unknown_speaker_uses_sam [of "''Narrator''" all_keys sam_only "''1b9d6bcd''" 0
      "JStr ''Welcome.''" fresh "[]" "[]", rule_format]
  have ne: "''Narrator'' \<noteq> ''Alex''" by simp
  have v: "select_voice all_keys (JStr ''Narrator'') = ''AZnzlk1XvdvUeBnXmlld''"
    using T [OF ne, THEN conjunct1] by (simp add: all_keys_def no_keys_def)
  have g1: "getitem_key (dialogue ''Narrator'' ''Welcome.'') ''speaker'' = Inr (JStr ''Narrator'')"
    and g2: "getitem_key (dialogue ''Narrator'' ''Welcome.'') ''text'' = Inr (JStr ''Welcome.'')"
    by (simp_all add: dialogue_def)
  have t: "text_to_speech sam_only 0 (ELEVENLABS_VOICE_SAM all_keys) (JStr ''Welcome.'') = Inr ''audio''"
    by (simp add: sam_only_def offline_def all_keys_def no_keys_def)
  have wr: "write_error sam_only [''output'', ''1b9d6bcd'', ''clips'', ''000_narrator.mp3''] = None"
    by (simp add: sam_only_def offline_def)
  have "voice_loop all_keys sam_only ''1b9d6bcd'' 0 [dialogue ''Narrator'' ''Welcome.''] [] fresh
        = voice_loop all_keys sam_only ''1b9d6bcd'' (Suc 0) []
            ([] @ [[''output'', ''1b9d6bcd'', ''clips'', ''000_narrator.mp3'']])
            (fresh\<lparr>files := (files fresh)
               ([''output'', ''1b9d6bcd'', ''clips'', ''000_narrator.mp3''] \<mapsto> ''audio'')\<rparr>)"
    using T [OF ne, THEN conjunct2, THEN conjunct2, rule_format,
             of "dialogue ''Narrator'' ''Welcome.''" "''audio''"]
      g1 g2 t wr unfolding narrator_path by simp
  then have l: "fst (voice_loop all_keys sam_only ''1b9d6bcd'' 0 [dialogue ''Narrator'' ''Welcome.''] [] fresh)
       = Inr [[''output'', ''1b9d6bcd'', ''clips'', ''000_narrator.mp3'']]"
    by simp
  show ?thesis using ne v g1 g2 t wr l by blast
qed

subsection \<open>Claim C1: the master file\<close>

lemma export_ok:
  "write_error w p = None \<Longrightarrow>
     export w a p st = (Inr p, st\<lparr>files := (files st)(p \<mapsto> mp3_encode w a)\<rparr>)"
  by (simp add: export_def write_bytes_def)

lemma export_Inr:
  "export w a p st = (Inr q, st') \<Longrightarrow>
     q = p \<and> st' = st\<lparr>files := (files st)(p \<mapsto> mp3_encode w a)\<rparr>"
  by (auto simp: export_def write_bytes_def split: option.splits)

lemma stitch_podcast_empty:
  "stitch_podcast w [] jingle_path job st = export w (Silent 1000) (final_path_of job) st"
  by (simp add: stitch_podcast_def)

lemma stitch_podcast_Inr:
  assumes "stitch_podcast w clips jingle_path job st = (Inr p, st')"
  shows "p = final_path_of job \<and> files st' p \<noteq> None
         \<and> (clips = [] \<longrightarrow> files st' p = Some (mp3_encode w (Silent 1000)))"
proof (cases "clips = []")
  case True
  then show ?thesis using assms export_Inr [of w "Silent 1000" "final_path_of job" st p st']
    by (auto simp: stitch_podcast_def)
next
  case False
  then obtain a where "export w a (final_path_of job) st = (Inr p, st')"
    using assms by (auto simp: stitch_podcast_def Let_def split: sum.splits)
  then show ?thesis using False export_Inr by fastforce
qed

lemma run_pipeline_unfold:
  "run_pipeline cfg w topic0 url tone st =
     (case mkdir_error w (path_div OUTPUT_DIR (job_of w)) of
        Some e \<Rightarrow> (Inl (Unhandled e), st)
      | None \<Rightarrow>
        (case generate_voice_clips cfg w (script_of cfg w topic0 url tone) (job_of w) st of
           (Inl e, st1) \<Rightarrow> (Inl (Unhandled e), st1)
         | (Inr clips, st1) \<Rightarrow>
           (case generate_jingle cfg w (topic_of topic0 url) (job_of w) st1 of
              (jp, st2) \<Rightarrow>
              (case stitch_podcast w clips jp (job_of w) st2 of
                 (Inl e, st3) \<Rightarrow> (Inl (Unhandled e), st3)
               | (Inr fp, st3) \<Rightarrow>
                 (case render_error w
                         (response_of cfg w topic0 url tone clips (files st3 fp \<noteq> None)) of
                    Some e \<Rightarrow> (Inl (Unhandled e), st3)
                  | None \<Rightarrow>
                      (Inr (response_of cfg w topic0 url tone clips (files st3 fp \<noteq> None)),
                       st3))))))"
  unfolding run_pipeline_def Let_def job_of_def topic_of_def brief_of_def script_of_def
    response_of_def
  by (rule refl)

lemma run_pipeline_completes:
  assumes "mkdir_error w (path_div OUTPUT_DIR (job_of w)) = None"
    and "generate_voice_clips cfg w (script_of cfg w topic0 url tone) (job_of w) st = (Inr clips, st1)"
    and "generate_jingle cfg w (topic_of topic0 url) (job_of w) st1 = (jp, st2)"
    and "stitch_podcast w clips jp (job_of w) st2 = (Inr fp, st3)"
    and "render_error w (response_of cfg w topic0 url tone clips True) = None"
  shows "run_pipeline cfg w topic0 url tone st
         = (Inr (response_of cfg w topic0 url tone clips True), st3)"
proof -
  from stitch_podcast_Inr [OF assms(4)] have "files st3 fp \<noteq> None" by blast
  then have t: "(files st3 fp \<noteq> None) = True" by simp
  show ?thesis
    unfolding run_pipeline_unfold assms(1) option.case assms(2) prod.case sum.case
      assms(3) assms(4) t assms(5)
    by (rule refl)
qed

lemma run_pipeline_InrD:
  assumes "run_pipeline cfg w topic0 url tone st = (Inr r, st')"
  shows "\<exists>clips st1 jp st2 fp.
           mkdir_error w (path_div OUTPUT_DIR (job_of w)) = None
           \<and> generate_voice_clips cfg w (script_of cfg w topic0 url tone) (job_of w) st
               = (Inr clips, st1)
           \<and> generate_jingle cfg w (topic_of topic0 url) (job_of w) st1 = (jp, st2)
           \<and> stitch_podcast w clips jp (job_of w) st2 = (Inr fp, st')
           \<and> r = response_of cfg w topic0 url tone clips True
           \<and> render_error w r = None"
proof -
  let ?job = "job_of w" and ?sc = "script_of cfg w topic0 url tone" and ?tp = "topic_of topic0 url"
  have m: "mkdir_error w (path_div OUTPUT_DIR ?job) = None"
  proof (cases "mkdir_error w (path_div OUTPUT_DIR ?job)")
    case (Some e)
    with assms show ?thesis unfolding run_pipeline_unfold by simp
  qed
  obtain v st1 where v: "generate_voice_clips cfg w ?sc ?job st = (v, st1)"
    by (cases "generate_voice_clips cfg w ?sc ?job st")
  obtain clips where c: "v = Inr clips"
  proof (cases v)
    case (Inl e)
    with assms m v show ?thesis unfolding run_pipeline_unfold by simp
  qed
  obtain jp st2 where j: "generate_jingle cfg w ?tp ?job st1 = (jp, st2)"
    by (cases "generate_jingle cfg w ?tp ?job st1")
  obtain s st3 where s: "stitch_podcast w clips jp ?job st2 = (s, st3)"
    by (cases "stitch_podcast w clips jp ?job st2")
  obtain fp where f: "s = Inr fp"
  proof (cases s)
    case (Inl e)
    with assms m v c j s show ?thesis unfolding run_pipeline_unfold by simp
  qed
  from s f stitch_podcast_Inr have ex: "(files st3 fp \<noteq> None) = True" by blast
  let ?r = "response_of cfg w topic0 url tone clips True"
  have u: "run_pipeline cfg w topic0 url tone st
      = (case render_error w ?r of Some e \<Rightarrow> (Inl (Unhandled e), st3) | None \<Rightarrow> (Inr ?r, st3))"
    unfolding run_pipeline_unfold m option.case v c prod.case sum.case j s f ex
    by (rule refl)
  have re: "render_error w ?r = None"
  proof (cases "render_error w ?r")
    case (Some e)
    with assms u show ?thesis by simp
  qed
  with assms u have "r = ?r" "st' = st3" by simp_all
  with m v c j s f re show ?thesis by blast
qed

lemma run_pipeline_Inr:
  assumes "run_pipeline cfg w topic0 url tone st = (Inr r, st')"
  shows "files st' (final_path_of (out_job_id r)) \<noteq> None
         \<and> out_audio_url r = Some (''/output/'' @ out_job_id r @ ''/podcast.mp3'')
         \<and> (out_clip_count r = 0
              \<longrightarrow> files st' (final_path_of (out_job_id r)) = Some (mp3_encode w (Silent 1000)))"
proof -
  from run_pipeline_InrD [OF assms] obtain clips jp st2 fp where
    s: "stitch_podcast w clips jp (job_of w) st2 = (Inr fp, st')"
    and r: "r = response_of cfg w topic0 url tone clips True"
    by blast
  from stitch_podcast_Inr [OF s] have fp: "fp = final_path_of (job_of w)"
    and ex: "files st' fp \<noteq> None"
    and em: "clips = [] \<longrightarrow> files st' fp = Some (mp3_encode w (Silent 1000))"
    by blast+
  show ?thesis unfolding r response_of_def using fp ex em by simp
qed

lemma generate_podcast_Inr:
  assumes "generate_podcast cfg w body st = (Inr r, st')"
  shows "files st' (final_path_of (out_job_id r)) \<noteq> None
         \<and> out_audio_url r = Some (''/output/'' @ out_job_id r @ ''/podcast.mp3'')
         \<and> (out_clip_count r = 0
              \<longrightarrow> files st' (final_path_of (out_job_id r)) = Some (mp3_encode w (Silent 1000)))"
proof -
  from assms obtain tp url tone where "run_pipeline cfg w tp url tone st = (Inr r, st')"
    unfolding generate_podcast_def by (auto split: sum.splits if_splits)
  then show ?thesis by (rule run_pipeline_Inr)
qed

text \<open>
  Claim C1. With an empty clip list \<^verbatim>\<open>stitch_podcast\<close> only exports a silence of
  1000 ms to the path of the job: the master has one piece, no chime, no jingle and no
  normalisation. Whenever \<^verbatim>\<open>stitch_podcast\<close> or the whole route returns, the master file
  exists at that path and the response refers to it; with no clips it is that silence.
\<close>

theorem master_exists_silent_when_empty:
  "stitch_podcast w [] jingle_path job st = export w (Silent 1000) (final_path_of job) st
   \<and> (write_error w (final_path_of job) = None
       \<longrightarrow> stitch_podcast w [] jingle_path job st
           = (Inr (final_path_of job),
              st\<lparr>files := (files st)(final_path_of job \<mapsto> mp3_encode w (Silent 1000))\<rparr>))
   \<and> duration (Silent 1000) = 1000
   \<and> pieces (Silent 1000) = [Silent 1000]
   \<and> (\<forall>clips p st'. stitch_podcast w clips jingle_path job st = (Inr p, st')
       \<longrightarrow> p = final_path_of job \<and> files st' p \<noteq> None)
   \<and> (\<forall>cfg body r st'. generate_podcast cfg w body st = (Inr r, st')
       \<longrightarrow> files st' (final_path_of (out_job_id r)) \<noteq> None
           \<and> out_audio_url r = Some (''/output/'' @ out_job_id r @ ''/podcast.mp3''))
   \<and> (\<forall>cfg body r st'. generate_podcast cfg w body st = (Inr r, st') \<and> out_clip_count r = 0
       \<longrightarrow> files st' (final_path_of (out_job_id r)) = Some (mp3_encode w (Silent 1000)))"
proof (intro conjI allI impI)
  show "stitch_podcast w [] jingle_path job st = export w (Silent 1000) (final_path_of job) st"
    by (rule stitch_podcast_empty)
  show "stitch_podcast w [] jingle_path job st
           = (Inr (final_path_of job),
              st\<lparr>files := (files st)(final_path_of job \<mapsto> mp3_encode w (Silent 1000))\<rparr>)"
    if "write_error w (final_path_of job) = None"
    using that by (simp add: stitch_podcast_empty export_ok)
  show "duration (Silent 1000) = 1000" by simp
  show "pieces (Silent 1000) = [Silent 1000]" by simp
next
  fix clips p st'
  assume "stitch_podcast w clips jingle_path job st = (Inr p, st')"
  then show "p = final_path_of job" and "files st' p \<noteq> None"
    using stitch_podcast_Inr by blast+
next
  fix cfg body r st'
  assume "generate_podcast cfg w body st = (Inr r, st')"
  then show "files st' (final_path_of (out_job_id r)) \<noteq> None"
    and "out_audio_url r = Some (''/output/'' @ out_job_id r @ ''/podcast.mp3'')"
    using generate_podcast_Inr by blast+
next
  fix cfg body r st'
  assume "generate_podcast cfg w body st = (Inr r, st') \<and> out_clip_count r = 0"
  then show "files st' (final_path_of (out_job_id r)) = Some (mp3_encode w (Silent 1000))"
    using generate_podcast_Inr by blast
qed


lemma final_path_example: "final_path_of ''1b9d6bcd'' = [''output'', ''1b9d6bcd'', ''podcast.mp3'']"
  by code_simp

lemma job_example: "take 8 (uuid4 offline) = ''1b9d6bcd''"
  by (simp add: offline_def)

lemma preview_example:
  "preview (research_topic offline ''black holes'')
   = ''Topic: black holes. (Wikipedia lookup failed '' @ em_dash @ '' generate from general knowledge.)''"
  by code_simp

lemma e2e:
  "generate_podcast no_keys offline (JObj [(''topic'', JStr ''black holes'')]) fresh
   = (Inr \<lparr> out_job_id = ''1b9d6bcd'', out_topic = ''black holes'', out_tone = ''casual'',
            out_script = placeholder_script ''black holes'',
            out_research_brief = ''Topic: black holes. (Wikipedia lookup failed '' @ em_dash
               @ '' generate from general knowledge.)'',
            out_audio_url = Some ''/output/1b9d6bcd/podcast.mp3'',
            out_has_audio = False, out_clip_count = 0 \<rparr>,
      fresh\<lparr>files := (files fresh)([''output'', ''1b9d6bcd'', ''podcast.mp3''] \<mapsto> ''mp3'')\<rparr>)"
proof -
  have b: "body_field (JObj [(''topic'', JStr ''black holes'')]) ''topic'' [] = Inr ''black holes''"
    "body_field (JObj [(''topic'', JStr ''black holes'')]) ''url'' [] = Inr []"
    "body_field (JObj [(''topic'', JStr ''black holes'')]) ''tone'' ''casual'' = Inr ''casual''"
    by code_simp+
  have k: "MINIMAX_API_KEY no_keys = []" "ELEVENLABS_API_KEY no_keys = []"
    by (simp_all add: no_keys_def)
  have w: "write_error offline [''output'', ''1b9d6bcd'', ''podcast.mp3''] = None"
    "mp3_encode offline (Silent 1000) = ''mp3''"
    "mkdir_error offline p = None" "render_error offline x = None" for p x
    by (simp_all add: offline_def)
  show ?thesis
    unfolding generate_podcast_def b
    by (simp add: run_pipeline_def Let_def job_example generate_script_def k
          generate_voice_clips_def generate_jingle_def stitch_podcast_def final_path_example
          export_def write_bytes_def w preview_example)
qed

theorem master_exists_silent_when_empty_witness:
  "write_error offline (final_path_of ''1b9d6bcd'') = None
   \<and> stitch_podcast offline [] None ''1b9d6bcd'' fresh
       = (Inr [''output'', ''1b9d6bcd'', ''podcast.mp3''],
          fresh\<lparr>files := (files fresh)([''output'', ''1b9d6bcd'', ''podcast.mp3''] \<mapsto> ''mp3'')\<rparr>)
   \<and> out_clip_count (projr (fst (generate_podcast no_keys offline
          (JObj [(''topic'', JStr ''black holes'')]) fresh))) = 0
   \<and> out_audio_url (projr (fst (generate_podcast no_keys offline
          (JObj [(''topic'', JStr ''black holes'')]) fresh))) = Some ''/output/1b9d6bcd/podcast.mp3''
   \<and> files (snd (generate_podcast no_keys offline
          (JObj [(''topic'', JStr ''black holes'')]) fresh)) [''output'', ''1b9d6bcd'', ''podcast.mp3'']
       = Some (mp3_encode offline (Silent 1000))"
proof -
  note T = master_exists_silent_when_empty [of offline None "''1b9d6bcd''" fresh]
  let ?body = "JObj [(''topic'', JStr ''black holes'')]"
  have h: "write_error offline (final_path_of ''1b9d6bcd'') = None"
    by (simp add: offline_def)
  have c1: "stitch_podcast offline [] None ''1b9d6bcd'' fresh
       = (Inr [''output'', ''1b9d6bcd'', ''podcast.mp3''],
          fresh\<lparr>files := (files fresh)([''output'', ''1b9d6bcd'', ''podcast.mp3''] \<mapsto> ''mp3'')\<rparr>)"
    using T [THEN conjunct2, THEN conjunct1, rule_format, OF h]
    by (simp add: final_path_example offline_def)
  obtain r st' where g: "generate_podcast no_keys offline ?body fresh = (Inr r, st')"
    and r: "out_clip_count r = 0" "out_job_id r = ''1b9d6bcd''"
    using e2e by simp
  have c2: "out_audio_url r = Some (''/output/'' @ out_job_id r @ ''/podcast.mp3'')"
    using T g by blast
  have c3: "files st' (final_path_of (out_job_id r)) = Some (mp3_encode offline (Silent 1000))"
    using T g r(1) by blast
  show ?thesis using h c1 c2 c3 r g by (simp add: final_path_example)
qed

subsection \<open>Claim C4: the synthetic chime\<close>

text \<open>
  Claim C4 says the three tones are mixed into one tone of 800 ms. The code joins them
  with \<^verbatim>\<open>+=\<close>, which appends: without a usable bell file the chime is the three tones
  one after the other, 2400 ms long, and the fade covers the end of the third tone
  only. It is not the mixed chime of the specification.
\<close>

theorem synthetic_bell_appends:
  "synthetic_bell
     = FadeOut 600
         (Append (Append (Gain (- 6) (Sine 659 800)) (Gain (- 12) (Sine 1318 800)))
            (Gain (- 15) (Sine 1977 800)))
   \<and> duration synthetic_bell = 2400
   \<and> duration spec_chime = 800
   \<and> synthetic_bell \<noteq> spec_chime
   \<and> create_bell_chime w (st\<lparr>files := (files st)(bell_file := None)\<rparr>) = synthetic_bell"
  by (simp add: synthetic_bell_def spec_chime_def create_bell_chime_def Let_def)

subsection \<open>Claim C6: the polling loop of the jingle stage\<close>

lemma download_jingle_counters:
  "download_jingle w job sd st = (r, st') \<Longrightarrow>
     slept st' = slept st \<and> status_polls st' = status_polls st"
  by (auto simp: download_jingle_def write_bytes_def split: sum.splits option.splits if_splits)

lemma poll_loop_counters:
  "poll_loop w job task as st = (r, st') \<Longrightarrow>
     status_polls st \<le> status_polls st'
     \<and> status_polls st' \<le> status_polls st + length as
     \<and> slept st' = slept st + 2 * (status_polls st' - status_polls st)"
proof (induction as arbitrary: st)
  case Nil
  then show ?case by simp
next
  case (Cons a as)
  let ?st2 = "st\<lparr>slept := slept st + 2, status_polls := status_polls st + 1\<rparr>"
  show ?case
  proof (cases "music_query w a task")
    case (Inl e)
    with Cons.prems show ?thesis by (auto simp: Let_def)
  next
    case (Inr sd)
    show ?thesis
    proof (cases "dict_get sd ''status'' JNull")
      case (Inl e)
      with Inr Cons.prems show ?thesis by (auto simp: Let_def)
    next
      case st: (Inr status)
      consider (s) "status = JStr ''Success''" | (f) "status = JStr ''Failed''"
        | (p) "status \<noteq> JStr ''Success''" "status \<noteq> JStr ''Failed''" by blast
      then show ?thesis
      proof cases
        case s
        with Inr st Cons.prems have "download_jingle w job sd ?st2 = (r, st')"
          by (simp add: Let_def)
        from download_jingle_counters [OF this] show ?thesis by simp
      next
        case f
        with Inr st Cons.prems show ?thesis by (auto simp: Let_def)
      next
        case p
        with Inr st Cons.prems have "poll_loop w job task as ?st2 = (r, st')"
          by (simp add: Let_def)
        from Cons.IH [OF this] show ?thesis by simp arith
      qed
    qed
  qed
qed

lemma after_polls_0 [simp]: "after_polls 0 st = st"
  by (simp add: after_polls_def)

lemma after_polls_step:
  "after_polls n (st\<lparr>slept := slept st + 2, status_polls := status_polls st + 1\<rparr>)
     = after_polls (Suc n) st"
  by (simp add: after_polls_def)

lemma poll_loop_pending_prefix:
  "\<forall>a \<in> set pre. pending w task a \<Longrightarrow>
     poll_loop w job task (pre @ rest) st = poll_loop w job task rest (after_polls (length pre) st)"
proof (induction pre arbitrary: st)
  case Nil
  then show ?case by simp
next
  case (Cons a pre)
  let ?st2 = "st\<lparr>slept := slept st + 2, status_polls := status_polls st + 1\<rparr>"
  from Cons.prems have pa: "pending w task a" and rest: "\<forall>a \<in> set pre. pending w task a"
    by simp_all
  from pa obtain sd status where q: "music_query w a task = Inr sd"
    and d: "dict_get sd ''status'' JNull = Inr status"
    and ns: "status \<noteq> JStr ''Success''" and nf: "status \<noteq> JStr ''Failed''"
    by (auto simp: pending_def poll_status_def andthen_def split: sum.splits)
  have "poll_loop w job task ((a # pre) @ rest) st = poll_loop w job task (pre @ rest) ?st2"
    using q d ns nf by (simp add: Let_def)
  also have "\<dots> = poll_loop w job task rest (after_polls (length pre) ?st2)"
    by (rule Cons.IH [OF rest])
  finally show ?case unfolding after_polls_step by simp
qed

lemma upt_split: "k < n \<Longrightarrow> [0..<n] = [0..<k] @ k # [Suc k..<n]"
  by (metis le_add1 less_imp_add_positive plus_nat.add_0 upt_add_eq_append upt_conv_Cons)

lemma generate_jingle_try_counters:
  assumes "generate_jingle_try w job st = (r, st')"
  shows "status_polls st \<le> status_polls st'
         \<and> status_polls st' \<le> status_polls st + 30
         \<and> slept st' = slept st + 2 * (status_polls st' - status_polls st)"
proof -
  have "(r, st') = (r, st') \<and> st' = st
        \<or> (\<exists>task. poll_loop w job task [0..<30] st = (r, st'))"
    using assms unfolding generate_jingle_try_def
    by (auto split: sum.splits if_splits)
  then show ?thesis
  proof
    assume "(r, st') = (r, st') \<and> st' = st"
    then show ?thesis by simp
  next
    assume "\<exists>task. poll_loop w job task [0..<30] st = (r, st')"
    then obtain task where "poll_loop w job task [0..<30] st = (r, st')" ..
    from poll_loop_counters [OF this] show ?thesis by simp
  qed
qed

lemma generate_jingle_counters:
  assumes "generate_jingle cfg w topic job st = (r, st')"
  shows "status_polls st \<le> status_polls st'
         \<and> status_polls st' \<le> status_polls st + 30
         \<and> slept st' = slept st + 2 * (status_polls st' - status_polls st)"
proof (cases "MINIMAX_API_KEY cfg = [] \<or> MINIMAX_GROUP_ID cfg = []")
  case True
  with assms show ?thesis by (auto simp: generate_jingle_def)
next
  case False
  obtain r1 st1 where t: "generate_jingle_try w job st = (r1, st1)"
    by (cases "generate_jingle_try w job st")
  with False assms have "st' = st1"
    by (auto simp: generate_jingle_def split: sum.splits)
  with generate_jingle_try_counters [OF t] show ?thesis by simp
qed

lemma generate_jingle_submitted:
  assumes "submitted cfg w task"
  shows "generate_jingle cfg w topic job st
         = (case poll_loop w job task [0..<30] st of
              (Inl e, st') \<Rightarrow> (None, st')
            | (Inr r, st') \<Rightarrow> (r, st'))"
  using assms
  by (auto simp: submitted_def generate_jingle_def generate_jingle_try_def split: sum.splits)

lemma pending_upto: "\<forall>a. a < k \<longrightarrow> pending w task a \<Longrightarrow> \<forall>a \<in> set [0..<k]. pending w task a"
  by simp

lemma poll_loop_exhausted:
  assumes "\<forall>a. a < n \<longrightarrow> pending w task a"
  shows "poll_loop w job task [0..<n] st = (Inr None, after_polls n st)"
  using poll_loop_pending_prefix [OF pending_upto [OF assms], of job "[]" st] by simp

lemma poll_loop_at:
  assumes "k < n" and "\<forall>a. a < k \<longrightarrow> pending w task a"
  shows "poll_loop w job task [0..<n] st
         = poll_loop w job task (k # [Suc k..<n]) (after_polls k st)"
  using poll_loop_pending_prefix [OF pending_upto [OF assms(2)], of job "k # [Suc k..<n]" st]
    upt_split [OF assms(1)] by simp

lemma after_polls_Suc:
  "(after_polls k st)\<lparr>slept := slept (after_polls k st) + 2,
       status_polls := status_polls (after_polls k st) + 1\<rparr> = after_polls (Suc k) st"
  by (simp add: after_polls_def)

lemma poll_step_failed:
  assumes "poll_status w task k = Inr (JStr ''Failed'')"
  shows "poll_loop w job task (k # rest) (after_polls k st) = (Inr None, after_polls (Suc k) st)"
proof -
  from assms obtain sd where "music_query w k task = Inr sd"
    and "dict_get sd ''status'' JNull = Inr (JStr ''Failed'')"
    by (auto simp: poll_status_def andthen_def split: sum.splits)
  then show ?thesis
    by (simp add: Let_def after_polls_def)
qed

lemma poll_step_raises:
  assumes "poll_status w task k = Inl e"
  shows "poll_loop w job task (k # rest) (after_polls k st) = (Inl e, after_polls (Suc k) st)"
  using assms
  by (auto simp: poll_status_def andthen_def Let_def after_polls_def split: sum.splits)

lemma poll_step_success:
  assumes "music_query w k task = Inr sd" and "dict_get sd ''status'' JNull = Inr (JStr ''Success'')"
  shows "poll_loop w job task (k # rest) (after_polls k st)
         = download_jingle w job sd (after_polls (Suc k) st)"
  using assms by (simp add: Let_def after_polls_def)

lemma download_jingle_Some:
  "download_jingle w job sd st = (Inr (Some p), st') \<Longrightarrow>
     p = jingle_path_of job \<and> files st' p \<noteq> None"
  by (auto simp: download_jingle_def write_bytes_def split: sum.splits option.splits if_splits)

lemma poll_loop_Some:
  "poll_loop w job task as st = (Inr (Some p), st') \<Longrightarrow>
     p = jingle_path_of job \<and> files st' p \<noteq> None"
proof (induction as arbitrary: st)
  case Nil
  then show ?case by simp
next
  case (Cons a as)
  let ?st2 = "st\<lparr>slept := slept st + 2, status_polls := status_polls st + 1\<rparr>"
  from Cons.prems have
    "(\<exists>sd. download_jingle w job sd ?st2 = (Inr (Some p), st'))
     \<or> poll_loop w job task as ?st2 = (Inr (Some p), st')"
    by (auto simp: Let_def split: sum.splits if_splits)
  then show ?case using download_jingle_Some Cons.IH by blast
qed

lemma generate_jingle_Some:
  assumes "generate_jingle cfg w topic job st = (Some p, st')"
  shows "p = jingle_path_of job \<and> files st' p \<noteq> None"
proof -
  from assms have "generate_jingle_try w job st = (Inr (Some p), st')"
    by (auto simp: generate_jingle_def split: if_splits sum.splits prod.splits)
  then obtain task where "poll_loop w job task [0..<30] st = (Inr (Some p), st')"
    by (auto simp: generate_jingle_try_def split: sum.splits if_splits)
  then show ?thesis by (rule poll_loop_Some)
qed

text \<open>
  Claim C6. \<^verbatim>\<open>generate_jingle\<close> always returns: it sends at most 30 status requests and
  sleeps two seconds before each, so at most 60 seconds. Without credentials, when the
  submission raises, when all 30 polls stay pending, at a \<^verbatim>\<open>Failed\<close> status and when a
  poll or the download raises, the result is absent. At a \<^verbatim>\<open>Success\<close> status the result
  is what the download step gives: the jingle path, with the downloaded bytes written
  there, when the response carries a download address and the download and the write
  succeed. A jingle that is returned is always the file of the job.
\<close>

theorem generate_jingle_bounded:
  "status_polls (snd (generate_jingle cfg w topic job st)) \<le> status_polls st + 30
   \<and> slept (snd (generate_jingle cfg w topic job st))
       = slept st + 2 * (status_polls (snd (generate_jingle cfg w topic job st)) - status_polls st)
   \<and> slept (snd (generate_jingle cfg w topic job st)) \<le> slept st + 60
   \<and> (MINIMAX_API_KEY cfg = [] \<or> MINIMAX_GROUP_ID cfg = []
       \<longrightarrow> generate_jingle cfg w topic job st = (None, st))
   \<and> (\<forall>e. music_submit w = Inl e \<longrightarrow> generate_jingle cfg w topic job st = (None, st))
   \<and> (\<forall>task. submitted cfg w task \<and> (\<forall>a. a < 30 \<longrightarrow> pending w task a)
       \<longrightarrow> generate_jingle cfg w topic job st = (None, after_polls 30 st))
   \<and> (\<forall>task k. submitted cfg w task \<and> k < 30 \<and> (\<forall>a. a < k \<longrightarrow> pending w task a)
         \<and> poll_status w task k = Inr (JStr ''Failed'')
       \<longrightarrow> generate_jingle cfg w topic job st = (None, after_polls (Suc k) st))
   \<and> (\<forall>task k e. submitted cfg w task \<and> k < 30 \<and> (\<forall>a. a < k \<longrightarrow> pending w task a)
         \<and> poll_status w task k = Inl e
       \<longrightarrow> generate_jingle cfg w topic job st = (None, after_polls (Suc k) st))
   \<and> (\<forall>task k sd. submitted cfg w task \<and> k < 30 \<and> (\<forall>a. a < k \<longrightarrow> pending w task a)
         \<and> music_query w k task = Inr sd
         \<and> dict_get sd ''status'' JNull = Inr (JStr ''Success'')
       \<longrightarrow> generate_jingle cfg w topic job st
           = (case download_jingle w job sd (after_polls (Suc k) st) of
                (Inl e, st') \<Rightarrow> (None, st')
              | (Inr r, st') \<Rightarrow> (r, st')))
   \<and> (\<forall>sd fl url content st1.
         dict_get sd ''file'' (JObj []) = Inr fl
         \<and> dict_get fl ''download_url'' JNull = Inr url \<and> truthy url
         \<and> http_get_bytes w url = Inr content
         \<and> write_error w (jingle_path_of job) = None
       \<longrightarrow> download_jingle w job sd st1
           = (Inr (Some (jingle_path_of job)),
              st1\<lparr>files := (files st1)(jingle_path_of job \<mapsto> content)\<rparr>))
   \<and> (\<forall>sd fl url e st1.
         dict_get sd ''file'' (JObj []) = Inr fl
         \<and> dict_get fl ''download_url'' JNull = Inr url \<and> truthy url
         \<and> http_get_bytes w url = Inl e
       \<longrightarrow> download_jingle w job sd st1 = (Inl e, st1))
   \<and> (\<forall>p. fst (generate_jingle cfg w topic job st) = Some p
       \<longrightarrow> p = jingle_path_of job \<and> files (snd (generate_jingle cfg w topic job st)) p \<noteq> None)"
proof -
  let ?G = "generate_jingle cfg w topic job st"
  obtain r st' where g: "?G = (r, st')" by (cases ?G)
  note c = generate_jingle_counters [OF g]
  have A: "status_polls (snd ?G) \<le> status_polls st + 30"
    "slept (snd ?G) = slept st + 2 * (status_polls (snd ?G) - status_polls st)"
    "slept (snd ?G) \<le> slept st + 60"
    using c unfolding g by (simp_all, arith)
  have B: "?G = (None, st)" if "MINIMAX_API_KEY cfg = [] \<or> MINIMAX_GROUP_ID cfg = []"
    using that by (auto simp: generate_jingle_def)
  have B': "?G = (None, st)" if "music_submit w = Inl e" for e
    using that by (auto simp: generate_jingle_def generate_jingle_try_def)
  have C: "?G = (None, after_polls 30 st)"
    if "submitted cfg w task \<and> (\<forall>a. a < 30 \<longrightarrow> pending w task a)" for task
    using that generate_jingle_submitted [of cfg w task topic job st]
      poll_loop_exhausted [of 30 w task job st] by simp
  have D: "?G = (None, after_polls (Suc k) st)"
    if "submitted cfg w task \<and> k < 30 \<and> (\<forall>a. a < k \<longrightarrow> pending w task a)
         \<and> poll_status w task k = Inr (JStr ''Failed'')" for task k
    using that generate_jingle_submitted [of cfg w task topic job st]
      poll_loop_at [of k 30 w task job st]
      poll_step_failed [of w task k job "[Suc k..<30]" st] by simp
  have E: "?G = (None, after_polls (Suc k) st)"
    if "submitted cfg w task \<and> k < 30 \<and> (\<forall>a. a < k \<longrightarrow> pending w task a)
         \<and> poll_status w task k = Inl e" for task k e
    using that generate_jingle_submitted [of cfg w task topic job st]
      poll_loop_at [of k 30 w task job st]
      poll_step_raises [of w task k e job "[Suc k..<30]" st] by simp
  have F: "?G = (case download_jingle w job sd (after_polls (Suc k) st) of
                (Inl e, st') \<Rightarrow> (None, st')
              | (Inr r, st') \<Rightarrow> (r, st'))"
    if "submitted cfg w task \<and> k < 30 \<and> (\<forall>a. a < k \<longrightarrow> pending w task a)
         \<and> music_query w k task = Inr sd
         \<and> dict_get sd ''status'' JNull = Inr (JStr ''Success'')" for task k sd
    using that generate_jingle_submitted [of cfg w task topic job st]
      poll_loop_at [of k 30 w task job st]
      poll_step_success [of w k task sd job "[Suc k..<30]" st] by simp
  have H: "download_jingle w job sd st1
           = (Inr (Some (jingle_path_of job)),
              st1\<lparr>files := (files st1)(jingle_path_of job \<mapsto> content)\<rparr>)"
    if "dict_get sd ''file'' (JObj []) = Inr fl
         \<and> dict_get fl ''download_url'' JNull = Inr url \<and> truthy url
         \<and> http_get_bytes w url = Inr content
         \<and> write_error w (jingle_path_of job) = None" for sd fl url content st1
    using that by (simp add: download_jingle_def andthen_def write_bytes_def)
  have I: "download_jingle w job sd st1 = (Inl e, st1)"
    if "dict_get sd ''file'' (JObj []) = Inr fl
         \<and> dict_get fl ''download_url'' JNull = Inr url \<and> truthy url
         \<and> http_get_bytes w url = Inl e" for sd fl url e st1
    using that by (simp add: download_jingle_def andthen_def)
  have J: "p = jingle_path_of job \<and> files (snd ?G) p \<noteq> None" if "fst ?G = Some p" for p
  proof -
    obtain q st2 where e: "?G = (q, st2)" by (cases ?G)
    with that have "?G = (Some p, st2)" by simp
    from generate_jingle_Some [OF this] show ?thesis unfolding e by auto
  qed
  show ?thesis
    by (intro conjI allI impI A B B' C D E F H I) (use J in blast)+
qed

lemma jingle_path_example: "jingle_path_of ''1b9d6bcd'' = [''output'', ''1b9d6bcd'', ''jingle.mp3'']"
  by code_simp

lemma submitted_examples:
  "submitted all_keys always_pending (JStr ''t1'')"
  "submitted all_keys fails_at_3 (JStr ''t1'')"
  "submitted all_keys breaks_at_2 (JStr ''t1'')"
  "submitted all_keys succeeds_at_5 (JStr ''t1'')"
  by (simp_all add: submitted_def all_keys_def no_keys_def always_pending_def fails_at_3_def
        breaks_at_2_def succeeds_at_5_def offline_def task_reply_def)

theorem generate_jingle_bounded_witness:
  "MINIMAX_API_KEY no_keys = []
   \<and> generate_jingle no_keys offline ''black holes'' ''1b9d6bcd'' fresh = (None, fresh)
   \<and> music_submit offline = Inl HTTPError
   \<and> generate_jingle all_keys offline ''black holes'' ''1b9d6bcd'' fresh = (None, fresh)
   \<and> submitted all_keys always_pending (JStr ''t1'')
   \<and> (\<forall>a. pending always_pending (JStr ''t1'') a)
   \<and> generate_jingle all_keys always_pending ''black holes'' ''1b9d6bcd'' fresh
       = (None, fresh\<lparr>slept := 60, status_polls := 30\<rparr>)
   \<and> submitted all_keys fails_at_3 (JStr ''t1'')
   \<and> pending fails_at_3 (JStr ''t1'') 0 \<and> pending fails_at_3 (JStr ''t1'') 1
   \<and> pending fails_at_3 (JStr ''t1'') 2
   \<and> poll_status fails_at_3 (JStr ''t1'') 3 = Inr (JStr ''Failed'')
   \<and> generate_jingle all_keys fails_at_3 ''black holes'' ''1b9d6bcd'' fresh
       = (None, fresh\<lparr>slept := 8, status_polls := 4\<rparr>)
   \<and> submitted all_keys breaks_at_2 (JStr ''t1'')
   \<and> pending breaks_at_2 (JStr ''t1'') 0 \<and> pending breaks_at_2 (JStr ''t1'') 1
   \<and> poll_status breaks_at_2 (JStr ''t1'') 2 = Inl HTTPError
   \<and> generate_jingle all_keys breaks_at_2 ''black holes'' ''1b9d6bcd'' fresh
       = (None, fresh\<lparr>slept := 6, status_polls := 3\<rparr>)
   \<and> submitted all_keys succeeds_at_5 (JStr ''t1'')
   \<and> music_query succeeds_at_5 5 (JStr ''t1'') = Inr success_reply
   \<and> dict_get success_reply ''status'' JNull = Inr (JStr ''Success'')
   \<and> generate_jingle all_keys succeeds_at_5 ''black holes'' ''1b9d6bcd'' fresh
       = (Some [''output'', ''1b9d6bcd'', ''jingle.mp3''],
          fresh\<lparr>slept := 12, status_polls := 6,
                files := (files fresh)([''output'', ''1b9d6bcd'', ''jingle.mp3''] \<mapsto> ''jingle'')\<rparr>)"
proof -
  let ?t = "JStr ''t1''"
  have k: "MINIMAX_API_KEY no_keys = []" by (simp add: no_keys_def)
  have c1: "generate_jingle no_keys offline ''black holes'' ''1b9d6bcd'' fresh = (None, fresh)"
    using generate_jingle_bounded [of no_keys offline "''black holes''" "''1b9d6bcd''" fresh,
        THEN conjunct2, THEN conjunct2, THEN conjunct2, THEN conjunct1] k
    by simp
  have s0: "music_submit offline = Inl HTTPError" by (simp add: offline_def)
  have c2: "generate_jingle all_keys offline ''black holes'' ''1b9d6bcd'' fresh = (None, fresh)"
    using generate_jingle_bounded [of all_keys offline "''black holes''" "''1b9d6bcd''" fresh,
        THEN conjunct2, THEN conjunct2, THEN conjunct2, THEN conjunct2, THEN conjunct1, rule_format, OF s0] .
  have p1: "pending always_pending ?t a" for a
    by (simp add: pending_def poll_status_def andthen_def always_pending_def offline_def
          status_reply_def)
  have c3: "generate_jingle all_keys always_pending ''black holes'' ''1b9d6bcd'' fresh
       = (None, fresh\<lparr>slept := 60, status_polls := 30\<rparr>)"
    using generate_jingle_bounded [of all_keys always_pending "''black holes''" "''1b9d6bcd''" fresh,
        THEN conjunct2, THEN conjunct2, THEN conjunct2, THEN conjunct2, THEN conjunct2, THEN conjunct1, rule_format, of ?t]
      submitted_examples(1) p1
    by (simp add: after_polls_def fresh_def)
  have p2: "pending fails_at_3 ?t a" if "a \<noteq> 3" for a
    using that by (simp add: pending_def poll_status_def andthen_def fails_at_3_def offline_def
          status_reply_def)
  have f3: "poll_status fails_at_3 ?t 3 = Inr (JStr ''Failed'')"
    by (simp add: poll_status_def andthen_def fails_at_3_def offline_def status_reply_def)
  have "submitted all_keys fails_at_3 ?t \<and> (3::nat) < 30
        \<and> (\<forall>a. a < 3 \<longrightarrow> pending fails_at_3 ?t a)
        \<and> poll_status fails_at_3 ?t 3 = Inr (JStr ''Failed'')"
    using submitted_examples(2) p2 f3 by simp
  then have c4: "generate_jingle all_keys fails_at_3 ''black holes'' ''1b9d6bcd'' fresh
       = (None, fresh\<lparr>slept := 8, status_polls := 4\<rparr>)"
    using generate_jingle_bounded [of all_keys fails_at_3 "''black holes''" "''1b9d6bcd''" fresh,
        THEN conjunct2, THEN conjunct2, THEN conjunct2, THEN conjunct2, THEN conjunct2, THEN conjunct2, THEN conjunct1, rule_format, of ?t 3]
    by (simp add: after_polls_def fresh_def)
  have p3: "pending breaks_at_2 ?t a" if "a \<noteq> 2" for a
    using that by (simp add: pending_def poll_status_def andthen_def breaks_at_2_def offline_def
          status_reply_def)
  have b2: "poll_status breaks_at_2 ?t 2 = Inl HTTPError"
    by (simp add: poll_status_def andthen_def breaks_at_2_def offline_def)
  have "submitted all_keys breaks_at_2 ?t \<and> (2::nat) < 30
        \<and> (\<forall>a. a < 2 \<longrightarrow> pending breaks_at_2 ?t a)
        \<and> poll_status breaks_at_2 ?t 2 = Inl HTTPError"
    using submitted_examples(3) p3 b2 by simp
  then have c5: "generate_jingle all_keys breaks_at_2 ''black holes'' ''1b9d6bcd'' fresh
       = (None, fresh\<lparr>slept := 6, status_polls := 3\<rparr>)"
    using generate_jingle_bounded [of all_keys breaks_at_2 "''black holes''" "''1b9d6bcd''" fresh,
        THEN conjunct2, THEN conjunct2, THEN conjunct2, THEN conjunct2, THEN conjunct2,
        THEN conjunct2, THEN conjunct2, THEN conjunct1, rule_format, of ?t 2 HTTPError]
    by (simp add: after_polls_def fresh_def)
  have p4: "pending succeeds_at_5 ?t a" if "a \<noteq> 5" for a
    using that by (simp add: pending_def poll_status_def andthen_def succeeds_at_5_def offline_def
          status_reply_def)
  have q5: "music_query succeeds_at_5 5 ?t = Inr success_reply"
    by (simp add: succeeds_at_5_def offline_def)
  have d5: "dict_get success_reply ''status'' JNull = Inr (JStr ''Success'')"
    by (simp add: success_reply_def)
  have h5: "submitted all_keys succeeds_at_5 ?t \<and> (5::nat) < 30
        \<and> (\<forall>a. a < 5 \<longrightarrow> pending succeeds_at_5 ?t a)
        \<and> music_query succeeds_at_5 5 ?t = Inr success_reply
        \<and> dict_get success_reply ''status'' JNull = Inr (JStr ''Success'')"
    using submitted_examples(4) p4 q5 d5 by simp
  have dl: "download_jingle succeeds_at_5 ''1b9d6bcd'' success_reply (after_polls (Suc 5) fresh)
        = (Inr (Some (jingle_path_of ''1b9d6bcd'')),
           (after_polls (Suc 5) fresh)\<lparr>files := (files (after_polls (Suc 5) fresh))
              (jingle_path_of ''1b9d6bcd'' \<mapsto> ''jingle'')\<rparr>)"
    using generate_jingle_bounded [of all_keys succeeds_at_5 "''black holes''" "''1b9d6bcd''" fresh,
        THEN conjunct2, THEN conjunct2, THEN conjunct2, THEN conjunct2, THEN conjunct2,
        THEN conjunct2, THEN conjunct2, THEN conjunct2, THEN conjunct2, THEN conjunct1,
        rule_format, of success_reply "JObj [(''download_url'', JStr ''http://cdn.example/j.mp3'')]"
          "JStr ''http://cdn.example/j.mp3''" "''jingle''" "after_polls (Suc 5) fresh"]
    by (simp add: success_reply_def succeeds_at_5_def offline_def)
  have c6: "generate_jingle all_keys succeeds_at_5 ''black holes'' ''1b9d6bcd'' fresh
       = (Some [''output'', ''1b9d6bcd'', ''jingle.mp3''],
          fresh\<lparr>slept := 12, status_polls := 6,
                files := (files fresh)([''output'', ''1b9d6bcd'', ''jingle.mp3''] \<mapsto> ''jingle'')\<rparr>)"
    using generate_jingle_bounded [of all_keys succeeds_at_5 "''black holes''" "''1b9d6bcd''" fresh,
        THEN conjunct2, THEN conjunct2, THEN conjunct2, THEN conjunct2, THEN conjunct2,
        THEN conjunct2, THEN conjunct2, THEN conjunct2, THEN conjunct1,
        rule_format, of ?t 5 success_reply, OF h5]
    unfolding dl by (simp add: after_polls_def fresh_def jingle_path_example)
  show ?thesis
    using k c1 s0 c2 submitted_examples p1 c3 p2 [of 0] p2 [of 1] p2 [of 2] f3 c4
      p3 [of 0] p3 [of 1] b2 c5 q5 d5 c6
    by simp
qed

subsection \<open>Clip names and their order\<close>

declare decimal.simps [simp del]

lemma of_char_digit: "d < 10 \<Longrightarrow> (of_char (digit d) :: nat) = 48 + d"
  by (simp add: digit_def)

lemma digit_less: "a < 10 \<Longrightarrow> b < 10 \<Longrightarrow> digit a < digit b \<longleftrightarrow> a < b"
  by (simp add: less_char_def of_char_digit)

lemma digit_inj: "a < 10 \<Longrightarrow> b < 10 \<Longrightarrow> digit a = digit b \<longleftrightarrow> a = b"
proof
  assume "a < 10" and "b < 10" and "digit a = digit b"
  then have "(of_char (digit a) :: nat) = of_char (digit b)" by simp
  with \<open>a < 10\<close> \<open>b < 10\<close> show "a = b" by (simp add: of_char_digit)
qed simp

lemma digit_not_slash: "d < 10 \<Longrightarrow> digit d \<noteq> CHR ''/''"
proof
  assume "d < 10" and "digit d = CHR ''/''"
  then have "(of_char (digit d) :: nat) = of_char (CHR ''/'')" by simp
  with \<open>d < 10\<close> show False by (simp add: of_char_digit)
qed

lemma digit_0: "digit 0 = CHR ''0''"
  by code_simp

lemma decimal_small: "n < 10 \<Longrightarrow> decimal n = [digit n]"
  by (simp add: decimal.simps)

lemma decimal_two: "10 \<le> n \<Longrightarrow> n < 100 \<Longrightarrow> decimal n = [digit (n div 10), digit (n mod 10)]"
  by (subst decimal.simps) (simp add: decimal_small)

lemma decimal_three:
  "100 \<le> n \<Longrightarrow> n < 1000 \<Longrightarrow>
     decimal n = [digit (n div 100), digit (n div 10 mod 10), digit (n mod 10)]"
  by (subst decimal.simps) (simp add: decimal_two div_mult2_eq [symmetric])

lemma zfill3_decimal:
  assumes "n < 1000"
  shows "zfill3 (decimal n) = [digit (n div 100), digit (n div 10 mod 10), digit (n mod 10)]"
proof -
  consider "n < 10" | "10 \<le> n" "n < 100" | "100 \<le> n" by linarith
  then show ?thesis
  proof cases
    case 1
    then show ?thesis by (simp add: decimal_small zfill3_def digit_0 numeral_3_eq_3)
  next
    case 2
    then show ?thesis by (simp add: decimal_two zfill3_def digit_0)
  next
    case 3
    with assms show ?thesis by (simp add: decimal_three zfill3_def)
  qed
qed

lemma three_digits:
  fixes n :: nat
  shows "n = 100 * (n div 100) + 10 * (n div 10 mod 10) + n mod 10"
proof -
  define a where "a = n div 100"
  define b where "b = n div 10 mod 10"
  define c where "c = n mod 10"
  define t where "t = n div 10"
  have 1: "n = 10 * t + c" unfolding t_def c_def by simp
  have "t div 10 = a" unfolding t_def a_def by (simp add: div_mult2_eq [symmetric])
  then have 2: "t = 10 * a + b" unfolding b_def t_def [symmetric]
    using mult_div_mod_eq [of 10 t] by simp
  have "n = 100 * a + 10 * b + c" unfolding 1 2 by simp
  then show ?thesis unfolding a_def b_def c_def .
qed

lemma weighted_order:
  fixes a b c a' b' c' :: nat
  assumes "100 * a + 10 * b + c < 100 * a' + 10 * b' + c'"
    and "b < 10" "c < 10" "b' < 10" "c' < 10"
  shows "a < a' \<or> a = a' \<and> b < b' \<or> a = a' \<and> b = b' \<and> c < c'"
  using assms by linarith

lemma digits_order:
  fixes i j :: nat
  assumes "i < j"
  shows "i div 100 < j div 100
         \<or> i div 100 = j div 100 \<and> i div 10 mod 10 < j div 10 mod 10
         \<or> i div 100 = j div 100 \<and> i div 10 mod 10 = j div 10 mod 10 \<and> i mod 10 < j mod 10"
proof (rule weighted_order)
  show "100 * (i div 100) + 10 * (i div 10 mod 10) + i mod 10
        < 100 * (j div 100) + 10 * (j div 10 mod 10) + j mod 10"
    using assms three_digits [of i] three_digits [of j] by simp
qed simp_all

lemma zfill3_decimal_less:
  assumes "i < j" and "j < 1000"
  shows "zfill3 (decimal i) @ x < zfill3 (decimal j) @ y"
proof -
  have b: "i div 100 < 10" "j div 100 < 10" "i div 10 mod 10 < 10" "j div 10 mod 10 < 10"
    "i mod 10 < 10" "j mod 10 < 10"
    using assms by simp_all
  from assms have i: "i < 1000" by simp
  have "[digit (i div 100), digit (i div 10 mod 10), digit (i mod 10)] @ x
        < [digit (j div 100), digit (j div 10 mod 10), digit (j mod 10)] @ y"
    using digits_order [OF assms(1)] b
    by (auto simp: digit_less digit_inj)
  then show ?thesis
    unfolding zfill3_decimal [OF i] zfill3_decimal [OF assms(2)] .
qed

lemma split_slash_head:
  "\<exists>t. split_slash acc s = (rev acc @ takeWhile (\<lambda>c. c \<noteq> CHR ''/'') s) # t"
proof (induction s arbitrary: acc)
  case Nil
  then show ?case by simp
next
  case (Cons c s)
  show ?case
  proof (cases "c = CHR ''/''")
    case True
    then show ?thesis by simp
  next
    case False
    obtain t where "split_slash (c # acc) s
        = (rev (c # acc) @ takeWhile (\<lambda>c. c \<noteq> CHR ''/'') s) # t"
      using Cons.IH by blast
    with False show ?thesis by simp
  qed
qed

lemma append_less_cancel: "(p @ u < p @ v) \<longleftrightarrow> (u < v)" for p u v :: "'a::linorder list"
  by (induction p) simp_all

lemma clip_path_shape:
  assumes "i < 1000"
  shows "\<exists>r t. path_div p (clip_name i low) = p @ ((zfill3 (decimal i) @ r) # t)"
proof -
  let ?a = "digit (i div 100)" and ?b = "digit (i div 10 mod 10)" and ?c = "digit (i mod 10)"
  let ?rest = "low @ ''.mp3''"
  have ns: "?a \<noteq> CHR ''/''" "?b \<noteq> CHR ''/''" "?c \<noteq> CHR ''/''"
    using assms by (simp_all add: digit_not_slash)
  have n: "clip_name i low = ?a # ?b # ?c # CHR ''_'' # ?rest"
    by (simp add: clip_name_def zfill3_decimal [OF assms])
  obtain t where t: "split_slash [] (clip_name i low)
      = (rev [] @ takeWhile (\<lambda>c. c \<noteq> CHR ''/'') (clip_name i low)) # t"
    using split_slash_head by blast
  let ?r = "CHR ''_'' # takeWhile (\<lambda>c. c \<noteq> CHR ''/'') ?rest"
  have h: "takeWhile (\<lambda>c. c \<noteq> CHR ''/'') (clip_name i low) = zfill3 (decimal i) @ ?r"
    unfolding n using ns by (simp add: zfill3_decimal [OF assms])
  have "parts (clip_name i low)
        = (zfill3 (decimal i) @ ?r) # filter (\<lambda>x. x \<noteq> [] \<and> x \<noteq> ''.'') t"
    unfolding parts_def t h by (simp add: zfill3_decimal [OF assms])
  moreover have "\<not> startswith (clip_name i low) ''/''"
    unfolding n using ns by (simp add: startswith_def)
  ultimately show ?thesis
    unfolding path_div_def by auto
qed

lemma clip_path_less:
  assumes "i < j" and "j < 1000"
  shows "path_div p (clip_name i a) < path_div p (clip_name j b)"
proof -
  from assms have i: "i < 1000" by simp
  obtain r t where 1: "path_div p (clip_name i a) = p @ ((zfill3 (decimal i) @ r) # t)"
    using clip_path_shape [OF i] by blast
  obtain r' t' where 2: "path_div p (clip_name j b) = p @ ((zfill3 (decimal j) @ r') # t')"
    using clip_path_shape [OF assms(2)] by blast
  show ?thesis
    unfolding 1 2 append_less_cancel
    using zfill3_decimal_less [OF assms, of r r'] by simp
qed

subsection \<open>Claim C5: the voice loop\<close>

lemma has_fieldsE:
  assumes "has_fields line"
  obtains speaker body where "getitem_key line ''speaker'' = Inr speaker"
    and "getitem_key line ''text'' = Inr body"
  using assms by (auto simp: has_fields_def split: sum.splits)

lemma synthesize_line_clip:
  assumes "getitem_key line ''speaker'' = Inr speaker" and "getitem_key line ''text'' = Inr body"
  shows "(\<exists>e. synthesize_line cfg w job i speaker body st = (Inl e, st)
            \<and> line_clip cfg w job (i, line) = None)
         \<or> (\<exists>p st'. synthesize_line cfg w job i speaker body st = (Inr p, st')
            \<and> line_clip cfg w job (i, line) = Some p)"
  using assms
  by (auto simp: synthesize_line_def line_clip_def write_bytes_def Let_def
      split: sum.splits option.splits)

lemma voice_loop_clips:
  "list_all has_fields lines \<Longrightarrow>
     fst (voice_loop cfg w job i lines acc st)
       = Inr (acc @ List.map_filter (line_clip cfg w job) (enumerate i lines))"
proof (induction lines arbitrary: i acc st)
  case Nil
  then show ?case by (simp add: List.map_filter_simps)
next
  case (Cons line lines)
  from Cons.prems have hf: "has_fields line" and rest: "list_all has_fields lines" by simp_all
  from hf obtain speaker body where f: "getitem_key line ''speaker'' = Inr speaker"
    "getitem_key line ''text'' = Inr body" by (rule has_fieldsE)
  from synthesize_line_clip [OF f, of cfg w job i st] show ?case
  proof (elim disjE exE conjE)
    fix e
    assume s: "synthesize_line cfg w job i speaker body st = (Inl e, st)"
      and l: "line_clip cfg w job (i, line) = None"
    show ?thesis
      using f s l Cons.IH [OF rest, of "Suc i" acc st]
      by (simp add: List.map_filter_simps)
  next
    fix p st'
    assume s: "synthesize_line cfg w job i speaker body st = (Inr p, st')"
      and l: "line_clip cfg w job (i, line) = Some p"
    show ?thesis
      using f s l Cons.IH [OF rest, of "Suc i" "acc @ [p]" st']
      by (simp add: List.map_filter_simps)
  qed
qed

lemma voice_loop_missing_field:
  "\<not> has_fields line \<Longrightarrow> \<exists>e. voice_loop cfg w job i (line # rest) acc st = (Inl e, st)"
  by (auto simp: has_fields_def split: sum.splits)

lemma line_clip_name:
  assumes "line_clip cfg w job (i, line) = Some p"
  shows "\<exists>low. p = path_div (clips_dir job) (clip_name i low)"
  using assms
  by (auto simp: line_clip_def Let_def split: sum.splits if_splits)

lemma map_filter_clips_elems:
  "p \<in> set (List.map_filter (line_clip cfg w job) (enumerate i lines)) \<Longrightarrow>
     \<exists>k low. i \<le> k \<and> k < i + length lines \<and> p = path_div (clips_dir job) (clip_name k low)"
proof (induction lines arbitrary: i)
  case Nil
  then show ?case by (simp add: List.map_filter_simps)
next
  case (Cons line lines)
  from Cons.prems have
    "line_clip cfg w job (i, line) = Some p
     \<or> p \<in> set (List.map_filter (line_clip cfg w job) (enumerate (Suc i) lines))"
    by (auto simp: List.map_filter_simps split: option.splits)
  then show ?case
  proof
    assume "line_clip cfg w job (i, line) = Some p"
    from line_clip_name [OF this] show ?thesis by auto
  next
    assume "p \<in> set (List.map_filter (line_clip cfg w job) (enumerate (Suc i) lines))"
    from Cons.IH [OF this] obtain k low where "Suc i \<le> k" "k < Suc i + length lines"
      "p = path_div (clips_dir job) (clip_name k low)" by blast
    then show ?thesis by (intro exI [of _ k] exI [of _ low]) simp
  qed
qed

lemma map_filter_clips_sorted:
  "i + length lines \<le> 1000 \<Longrightarrow>
     sorted_wrt (<) (List.map_filter (line_clip cfg w job) (enumerate i lines))"
proof (induction lines arbitrary: i)
  case Nil
  then show ?case by (simp add: List.map_filter_simps)
next
  case (Cons line lines)
  from Cons.prems have b: "Suc i + length lines \<le> 1000" by simp
  note ih = Cons.IH [OF b]
  show ?case
  proof (cases "line_clip cfg w job (i, line)")
    case None
    then show ?thesis using ih by (simp add: List.map_filter_simps)
  next
    case (Some p)
    from line_clip_name [OF Some] obtain low where p: "p = path_div (clips_dir job) (clip_name i low)"
      by blast
    have "p < q" if "q \<in> set (List.map_filter (line_clip cfg w job) (enumerate (Suc i) lines))" for q
    proof -
      from map_filter_clips_elems [OF that] obtain k low' where k: "Suc i \<le> k"
        "k < Suc i + length lines" and q: "q = path_div (clips_dir job) (clip_name k low')" by blast
      from k b have "i < k" "k < 1000" by simp_all
      then show ?thesis unfolding p q by (rule clip_path_less)
    qed
    then show ?thesis using Some ih by (simp add: List.map_filter_simps)
  qed
qed

lemma sort_clips_id:
  assumes "length lines \<le> 1000"
  shows "sort (List.map_filter (line_clip cfg w job) (enumerate 0 lines))
         = List.map_filter (line_clip cfg w job) (enumerate 0 lines)"
proof -
  have "sorted_wrt (<) (List.map_filter (line_clip cfg w job) (enumerate 0 lines))"
    using map_filter_clips_sorted [of 0 lines] assms by simp
  then have "sorted (List.map_filter (line_clip cfg w job) (enumerate 0 lines))"
    by (simp add: strict_sorted_iff)
  then show ?thesis by (rule sorted_sort_id)
qed


lemma voice_loop_skip:
  assumes "getitem_key line ''speaker'' = Inr speaker" and "getitem_key line ''text'' = Inr body"
    and "synthesize_line cfg w job i speaker body st = (Inl e, st')"
  shows "voice_loop cfg w job i (line # rest) acc st = voice_loop cfg w job (Suc i) rest acc st
         \<and> st' = st"
proof -
  from assms(3) have "st' = st"
    by (auto simp: synthesize_line_def write_bytes_def Let_def split: sum.splits option.splits)
  with assms show ?thesis by simp
qed

text \<open>
  Claim C5, for scripts whose lines are dialogue lines, each with its two fields, and
  with the bound the file names impose. The clip directory is made first. Without a
  speech key the result is empty. Otherwise the lines are taken in order from index 0;
  a line whose request, label or write fails is skipped alone, nothing is written, and
  the loop goes on with the next index; the clips keep the index of their line in the
  name \<^verbatim>\<open>iii_speaker.mp3\<close>: the result is the list of the clips of the lines that
  succeeded, in line order. The index is padded to three digits, so sorting the paths
  gives the speaking order back for scripts of at most 1000 lines.
\<close>

theorem generate_voice_clips_order:
  "(mkdir_error w (clips_dir job) = None \<and> ELEVENLABS_API_KEY cfg = []
       \<longrightarrow> generate_voice_clips cfg w script job st = (Inr [], st))
   \<and> (\<forall>lines. mkdir_error w (clips_dir job) = None \<and> ELEVENLABS_API_KEY cfg \<noteq> []
         \<and> iter script = Inr lines
       \<longrightarrow> generate_voice_clips cfg w script job st = voice_loop cfg w job 0 lines [] st)
   \<and> (\<forall>i line rest acc speaker body e st'.
         getitem_key line ''speaker'' = Inr speaker \<and> getitem_key line ''text'' = Inr body
         \<and> synthesize_line cfg w job i speaker body st = (Inl e, st')
       \<longrightarrow> voice_loop cfg w job i (line # rest) acc st = voice_loop cfg w job (Suc i) rest acc st
           \<and> st' = st)
   \<and> (\<forall>i lines acc. list_all has_fields lines
       \<longrightarrow> fst (voice_loop cfg w job i lines acc st)
           = Inr (acc @ List.map_filter (line_clip cfg w job) (enumerate i lines)))
   \<and> (\<forall>lines. mkdir_error w (clips_dir job) = None \<and> ELEVENLABS_API_KEY cfg \<noteq> []
         \<and> iter script = Inr lines \<and> list_all has_fields lines
       \<longrightarrow> fst (generate_voice_clips cfg w script job st)
           = Inr (List.map_filter (line_clip cfg w job) (enumerate 0 lines)))
   \<and> (\<forall>i line p. line_clip cfg w job (i, line) = Some p
       \<longrightarrow> (\<exists>low. p = path_div (clips_dir job) (clip_name i low)
                \<and> clip_name i low = zfill3 (decimal i) @ ''_'' @ low @ ''.mp3''))
   \<and> (\<forall>lines. length lines \<le> 1000
       \<longrightarrow> sort (List.map_filter (line_clip cfg w job) (enumerate 0 lines))
           = List.map_filter (line_clip cfg w job) (enumerate 0 lines))"
proof (intro conjI allI impI)
  show "generate_voice_clips cfg w script job st = (Inr [], st)"
    if "mkdir_error w (clips_dir job) = None \<and> ELEVENLABS_API_KEY cfg = []"
    using that by (simp add: generate_voice_clips_def)
next
  fix lines
  assume "mkdir_error w (clips_dir job) = None \<and> ELEVENLABS_API_KEY cfg \<noteq> []
         \<and> iter script = Inr lines"
  then show "generate_voice_clips cfg w script job st = voice_loop cfg w job 0 lines [] st"
    by (simp add: generate_voice_clips_def)
next
  fix i line rest acc speaker body e st'
  assume h: "getitem_key line ''speaker'' = Inr speaker \<and> getitem_key line ''text'' = Inr body
         \<and> synthesize_line cfg w job i speaker body st = (Inl e, st')"
  then show "voice_loop cfg w job i (line # rest) acc st = voice_loop cfg w job (Suc i) rest acc st"
    and "st' = st"
    using voice_loop_skip [of line speaker body cfg w job i st e st' rest acc] by blast+
next
  fix i lines acc
  assume "list_all has_fields lines"
  then show "fst (voice_loop cfg w job i lines acc st)
           = Inr (acc @ List.map_filter (line_clip cfg w job) (enumerate i lines))"
    by (rule voice_loop_clips)
next
  fix lines
  assume "mkdir_error w (clips_dir job) = None \<and> ELEVENLABS_API_KEY cfg \<noteq> []
         \<and> iter script = Inr lines \<and> list_all has_fields lines"
  then show "fst (generate_voice_clips cfg w script job st)
           = Inr (List.map_filter (line_clip cfg w job) (enumerate 0 lines))"
    using voice_loop_clips [of lines cfg w job 0 "[]" st]
    by (simp add: generate_voice_clips_def)
next
  fix i line p
  assume "line_clip cfg w job (i, line) = Some p"
  from line_clip_name [OF this]
  show "\<exists>low. p = path_div (clips_dir job) (clip_name i low)
                \<and> clip_name i low = zfill3 (decimal i) @ ''_'' @ low @ ''.mp3''"
    by (auto simp: clip_name_def)
next
  fix lines :: "json list"
  assume "length lines \<le> 1000"
  then show "sort (List.map_filter (line_clip cfg w job) (enumerate 0 lines))
           = List.map_filter (line_clip cfg w job) (enumerate 0 lines)"
    by (rule sort_clips_id)
qed

lemma five_lines_clips:
  "List.map_filter (line_clip all_keys fails_line_2 ''1b9d6bcd'') (enumerate 0 five_lines)
   = [[''output'', ''1b9d6bcd'', ''clips'', ''000_alex.mp3''],
      [''output'', ''1b9d6bcd'', ''clips'', ''001_sam.mp3''],
      [''output'', ''1b9d6bcd'', ''clips'', ''003_sam.mp3''],
      [''output'', ''1b9d6bcd'', ''clips'', ''004_alex.mp3'']]"
  by code_simp

lemma five_lines_fields: "list_all has_fields five_lines"
  by code_simp

theorem generate_voice_clips_order_witness:
  "mkdir_error speaks (clips_dir ''1b9d6bcd'') = None
   \<and> ELEVENLABS_API_KEY no_keys = []
   \<and> generate_voice_clips no_keys speaks (JArr five_lines) ''1b9d6bcd'' fresh = (Inr [], fresh)
   \<and> mkdir_error fails_line_2 (clips_dir ''1b9d6bcd'') = None
   \<and> ELEVENLABS_API_KEY all_keys \<noteq> []
   \<and> iter (JArr five_lines) = Inr five_lines
   \<and> generate_voice_clips all_keys fails_line_2 (JArr five_lines) ''1b9d6bcd'' fresh
       = voice_loop all_keys fails_line_2 ''1b9d6bcd'' 0 five_lines [] fresh
   \<and> getitem_key (dialogue ''Alex'' ''Three.'') ''speaker'' = Inr (JStr ''Alex'')
   \<and> getitem_key (dialogue ''Alex'' ''Three.'') ''text'' = Inr (JStr ''Three.'')
   \<and> synthesize_line all_keys fails_line_2 ''1b9d6bcd'' 2 (JStr ''Alex'') (JStr ''Three.'') fresh
       = (Inl HTTPError, fresh)
   \<and> voice_loop all_keys fails_line_2 ''1b9d6bcd'' 2 (drop 2 five_lines) [] fresh
       = voice_loop all_keys fails_line_2 ''1b9d6bcd'' 3 (drop 3 five_lines) [] fresh
   \<and> list_all has_fields five_lines
   \<and> fst (generate_voice_clips all_keys fails_line_2 (JArr five_lines) ''1b9d6bcd'' fresh)
       = Inr [[''output'', ''1b9d6bcd'', ''clips'', ''000_alex.mp3''],
              [''output'', ''1b9d6bcd'', ''clips'', ''001_sam.mp3''],
              [''output'', ''1b9d6bcd'', ''clips'', ''003_sam.mp3''],
              [''output'', ''1b9d6bcd'', ''clips'', ''004_alex.mp3'']]
   \<and> line_clip all_keys fails_line_2 ''1b9d6bcd'' (3, dialogue ''Sam'' ''Four.'')
       = Some [''output'', ''1b9d6bcd'', ''clips'', ''003_sam.mp3'']
   \<and> length five_lines \<le> 1000
   \<and> sort [[''output'', ''1b9d6bcd'', ''clips'', ''000_alex.mp3''],
            [''output'', ''1b9d6bcd'', ''clips'', ''001_sam.mp3''],
            [''output'', ''1b9d6bcd'', ''clips'', ''003_sam.mp3''],
            [''output'', ''1b9d6bcd'', ''clips'', ''004_alex.mp3'']]
       = [[''output'', ''1b9d6bcd'', ''clips'', ''000_alex.mp3''],
          [''output'', ''1b9d6bcd'', ''clips'', ''001_sam.mp3''],
          [''output'', ''1b9d6bcd'', ''clips'', ''003_sam.mp3''],
          [''output'', ''1b9d6bcd'', ''clips'', ''004_alex.mp3'']]"
proof -
  note T1 = generate_voice_clips_order [of speaks "''1b9d6bcd''" no_keys "JArr five_lines" fresh]
  note T2 = generate_voice_clips_order [of fails_line_2 "''1b9d6bcd''" all_keys "JArr five_lines" fresh]
  have m1: "mkdir_error speaks (clips_dir ''1b9d6bcd'') = None"
    by (simp add: speaks_def offline_def)
  have m2: "mkdir_error fails_line_2 (clips_dir ''1b9d6bcd'') = None"
    by (simp add: fails_line_2_def offline_def)
  have k: "ELEVENLABS_API_KEY no_keys = []" by (simp add: no_keys_def)
  have c1: "generate_voice_clips no_keys speaks (JArr five_lines) ''1b9d6bcd'' fresh = (Inr [], fresh)"
    using T1 [THEN conjunct1] m1 k by simp
  have k2: "ELEVENLABS_API_KEY all_keys \<noteq> []" by (simp add: all_keys_def no_keys_def)
  have it: "iter (JArr five_lines) = Inr five_lines" by simp
  have c1': "generate_voice_clips all_keys fails_line_2 (JArr five_lines) ''1b9d6bcd'' fresh
       = voice_loop all_keys fails_line_2 ''1b9d6bcd'' 0 five_lines [] fresh"
    using T2 [THEN conjunct2, THEN conjunct1, rule_format, of five_lines] m2 k2 it by simp
  have g: "getitem_key (dialogue ''Alex'' ''Three.'') ''speaker'' = Inr (JStr ''Alex'')"
    "getitem_key (dialogue ''Alex'' ''Three.'') ''text'' = Inr (JStr ''Three.'')"
    by (simp_all add: dialogue_def)
  have sl: "synthesize_line all_keys fails_line_2 ''1b9d6bcd'' 2 (JStr ''Alex'') (JStr ''Three.'') fresh
       = (Inl HTTPError, fresh)"
    by (simp add: synthesize_line_def fails_line_2_def offline_def)
  have d: "drop 2 five_lines = dialogue ''Alex'' ''Three.'' # drop 3 five_lines"
    by (simp add: five_lines_def)
  have sk: "voice_loop all_keys fails_line_2 ''1b9d6bcd'' 2 (drop 2 five_lines) [] fresh
       = voice_loop all_keys fails_line_2 ''1b9d6bcd'' 3 (drop 3 five_lines) [] fresh"
    using T2 [THEN conjunct2, THEN conjunct2, THEN conjunct1, rule_format,
        of "dialogue ''Alex'' ''Three.''" "JStr ''Alex''" "JStr ''Three.''" 2 HTTPError fresh
          "drop 3 five_lines" "[]"] g sl
    unfolding d by (simp add: eval_nat_numeral)
  have c2: "fst (generate_voice_clips all_keys fails_line_2 (JArr five_lines) ''1b9d6bcd'' fresh)
       = Inr (List.map_filter (line_clip all_keys fails_line_2 ''1b9d6bcd'') (enumerate 0 five_lines))"
    using T2 [THEN conjunct2, THEN conjunct2, THEN conjunct2, THEN conjunct2, THEN conjunct1,
        rule_format, of five_lines] m2 k2 it five_lines_fields
    by simp
  have l3: "line_clip all_keys fails_line_2 ''1b9d6bcd'' (3, dialogue ''Sam'' ''Four.'')
       = Some [''output'', ''1b9d6bcd'', ''clips'', ''003_sam.mp3'']"
    by code_simp
  have len: "length five_lines \<le> 1000" by (simp add: five_lines_def)
  have c3: "sort (List.map_filter (line_clip all_keys fails_line_2 ''1b9d6bcd'') (enumerate 0 five_lines))
       = List.map_filter (line_clip all_keys fails_line_2 ''1b9d6bcd'') (enumerate 0 five_lines)"
    using T2 [THEN conjunct2, THEN conjunct2, THEN conjunct2, THEN conjunct2, THEN conjunct2,
        THEN conjunct2, rule_format, OF len] .
  show ?thesis
    using m1 k c1 m2 k2 it c1' g sl sk five_lines_fields c2 l3 len c3
    unfolding five_lines_clips by simp
qed


text \<open>
  Claim C5 as worded holds the sort for every script. With 1001 lines that all
  synthesise, the clip of line 1000 is \<^verbatim>\<open>1000_sam.mp3\<close> and sorts before
  \<^verbatim>\<open>101_sam.mp3\<close>: sorting the result does not give the speaking order.
\<close>

lemma map_filter_replicate:
  assumes "\<And>i. f (i, l) = Some (g i)"
  shows "List.map_filter f (enumerate k (replicate n l)) = map g [k..<k + n]"
proof (induction n arbitrary: k)
  case 0
  then show ?case by (simp add: List.map_filter_simps)
next
  case (Suc n)
  have "[k..<k + Suc n] = k # [Suc k..<Suc k + n]" by (simp add: upt_conv_Cons)
  then show ?case using Suc [of "Suc k"] assms by (simp add: List.map_filter_simps)
qed

lemma long_script_clip:
  "line_clip all_keys speaks ''1b9d6bcd'' (i, dialogue ''Sam'' ''Hi.'') = Some (sam_clip i)"
proof -
  have "str_lower (JStr ''Sam'') = Inr ''sam''" by code_simp
  then show ?thesis
    by (simp add: line_clip_def dialogue_def speaks_def offline_def sam_clip_def)
qed

lemma sam_clip_1000_101: "sam_clip 1000 < sam_clip 101"
  by code_simp

theorem sort_by_name_counterexample:
  "fst (generate_voice_clips all_keys speaks (JArr long_script) ''1b9d6bcd'' fresh)
     = Inr (map sam_clip [0..<1001])
   \<and> sort (map sam_clip [0..<1001]) \<noteq> map sam_clip [0..<1001]
   \<and> sam_clip 101 = [''output'', ''1b9d6bcd'', ''clips'', ''101_sam.mp3'']
   \<and> sam_clip 1000 = [''output'', ''1b9d6bcd'', ''clips'', ''1000_sam.mp3'']
   \<and> sam_clip 1000 < sam_clip 101"
proof -
  have hf: "list_all has_fields long_script"
    by (simp add: long_script_def list_all_iff has_fields_def dialogue_def)
  have k2: "ELEVENLABS_API_KEY all_keys \<noteq> []" by (simp add: all_keys_def no_keys_def)
  have "fst (generate_voice_clips all_keys speaks (JArr long_script) ''1b9d6bcd'' fresh)
        = Inr (List.map_filter (line_clip all_keys speaks ''1b9d6bcd'') (enumerate 0 long_script))"
    using voice_loop_clips [OF hf, of all_keys speaks "''1b9d6bcd''" 0 "[]" fresh] k2
    by (simp add: generate_voice_clips_def speaks_def offline_def)
  also have "List.map_filter (line_clip all_keys speaks ''1b9d6bcd'') (enumerate 0 long_script)
        = map sam_clip [0..<0 + 1001]"
    unfolding long_script_def by (rule map_filter_replicate) (rule long_script_clip)
  finally have c1: "fst (generate_voice_clips all_keys speaks (JArr long_script) ''1b9d6bcd'' fresh)
     = Inr (map sam_clip [0..<1001])" by simp
  have c2: "sort (map sam_clip [0..<1001]) \<noteq> map sam_clip [0..<1001]"
  proof
    assume "sort (map sam_clip [0..<1001]) = map sam_clip [0..<1001]"
    then have "sorted (map sam_clip [0..<1001])" by (metis sorted_sort)
    then have "map sam_clip [0..<1001] ! 101 \<le> map sam_clip [0..<1001] ! 1000"
      by (rule sorted_nth_mono) simp_all
    then have "sam_clip 101 \<le> sam_clip 1000" by simp
    with sam_clip_1000_101 show False by simp
  qed
  have c3: "sam_clip 101 = [''output'', ''1b9d6bcd'', ''clips'', ''101_sam.mp3'']"
    "sam_clip 1000 = [''output'', ''1b9d6bcd'', ''clips'', ''1000_sam.mp3'']"
    by code_simp+
  show ?thesis using c1 c2 c3 sam_clip_1000_101 by simp
qed

subsection \<open>Claim C3: the assembled master\<close>

lemma decodable_from_mp3: "decodable w st p \<Longrightarrow> from_mp3 w st p = Inr (decoded w st p)"
  by (auto simp: decodable_def decoded_def split: sum.splits)

lemma decodable_pieces: "decodable w st p \<Longrightarrow> pieces (decoded w st p) = [decoded w st p]"
  by (auto simp: decodable_def decoded_def from_mp3_def split: sum.splits option.splits)

lemma conversation_track:
  "list_all (decodable w st) ps \<Longrightarrow>
     \<exists>conv. conversation w st ps acc = Inr conv
       \<and> pieces conv = pieces acc @ concat (map (\<lambda>p. [decoded w st p, Silent 400]) ps)
       \<and> duration conv = duration acc + sum_list (map (\<lambda>p. duration (decoded w st p) + 400) ps)"
proof (induction ps arbitrary: acc)
  case Nil
  then show ?case by simp
next
  case (Cons p ps)
  from Cons.prems have d: "decodable w st p" and rest: "list_all (decodable w st) ps" by simp_all
  let ?acc = "Append acc (Append (decoded w st p) (Silent 400))"
  from Cons.IH [OF rest, of ?acc] obtain conv where c: "conversation w st ps ?acc = Inr conv"
    and p: "pieces conv = pieces ?acc @ concat (map (\<lambda>p. [decoded w st p, Silent 400]) ps)"
    and l: "duration conv = duration ?acc + sum_list (map (\<lambda>p. duration (decoded w st p) + 400) ps)"
    by blast
  have "conversation w st (p # ps) acc = Inr conv"
    using c decodable_from_mp3 [OF d] by simp
  moreover have "pieces conv = pieces acc @ concat (map (\<lambda>p. [decoded w st p, Silent 400]) (p # ps))"
    using p decodable_pieces [OF d] by simp
  moreover have "duration conv
      = duration acc + sum_list (map (\<lambda>p. duration (decoded w st p) + 400) (p # ps))"
    using l by simp
  ultimately show ?case by blast
qed

lemma sum_list_sort: "sum_list (map f (sort xs)) = sum_list (map f xs)" for f :: "'a::linorder \<Rightarrow> nat"
proof -
  have "mset (map f (sort xs)) = mset (map f xs)" by simp
  then show ?thesis by (metis sum_mset_sum_list)
qed

lemma sections_no_jingle:
  "jingle_path = None \<or> files st (the jingle_path) = None \<Longrightarrow>
     sections w st jingle_path bell = Inr (Append bell (Silent 1000), Append (Silent 800) bell)"
  by (auto simp: sections_def)

lemma clip_path_mono:
  assumes "fst x < fst y" and "fst y < 1000"
  shows "clip_path job x < clip_path job y"
  unfolding clip_path_def using assms by (rule clip_path_less)

lemma sort_clip_paths:
  assumes "list_all (\<lambda>il. fst il < 1000) ils" and "distinct (map fst ils)"
  shows "sort (map (clip_path job) ils) = map (clip_path job) (sort_key fst ils)"
proof (rule properties_for_sort)
  show "mset (map (clip_path job) (sort_key fst ils)) = mset (map (clip_path job) ils)" by simp
  let ?js = "sort_key fst ils"
  have "sorted (map fst ?js)" by (rule sorted_sort_key)
  moreover have "distinct (map fst ?js)"
    using assms(2) by (metis distinct_map distinct_sort set_sort)
  ultimately have "sorted_wrt (<) (map fst ?js)" by (simp add: strict_sorted_iff)
  then have "sorted_wrt (\<lambda>x y. fst x < fst y) ?js" by (simp add: sorted_wrt_map)
  moreover have "fst x < fst y \<longrightarrow> clip_path job x < clip_path job y"
    if "x \<in> set ?js" "y \<in> set ?js" for x y
  proof
    assume "fst x < fst y"
    moreover from that assms(1) have "fst y < 1000" by (simp add: list_all_iff)
    ultimately show "clip_path job x < clip_path job y" by (rule clip_path_mono)
  qed
  ultimately have "sorted_wrt (\<lambda>x y. clip_path job x < clip_path job y) ?js"
    using sorted_wrt_mono_rel [of ?js "\<lambda>x y. fst x < fst y"
        "\<lambda>x y. clip_path job x < clip_path job y"] by blast
  then have "sorted_wrt (<) (map (clip_path job) ?js)" by (simp add: sorted_wrt_map)
  then show "sorted (map (clip_path job) ?js)" by (simp add: strict_sorted_iff)
qed

text \<open>
  Claim C3, with the same bound. For a non-empty list of clips that decode and no jingle,
  the master is the normalised sequence chime, 1000 ms of silence, conversation, 800 ms
  of silence, chime; the conversation is every clip in the sorted order of the paths,
  each followed by 400 ms of silence, the last one too; and the duration is the sum the
  claim gives. The sorted order of the paths is the order of the sequence index when the
  indices are below 1000.
\<close>

theorem stitch_master_structure:
  "(clips \<noteq> [] \<and> list_all (decodable w st) clips
      \<and> (jingle_path = None \<or> files st (the jingle_path) = None)
    \<longrightarrow> (\<exists>conv.
          assemble w st clips jingle_path
            = Inr (Normalize (Append (Append (Append (create_bell_chime w st) (Silent 1000)) conv)
                                (Append (Silent 800) (create_bell_chime w st))))
          \<and> pieces conv = concat (map (\<lambda>p. [decoded w st p, Silent 400]) (sort clips))
          \<and> stitch_podcast w clips jingle_path job st
              = export w (Normalize (Append (Append (Append (create_bell_chime w st) (Silent 1000)) conv)
                                (Append (Silent 800) (create_bell_chime w st))))
                  (final_path_of job) st)
        \<and> (\<forall>master. assemble w st clips jingle_path = Inr master
            \<longrightarrow> duration master
                = duration (create_bell_chime w st) + 1000
                  + sum_list (map (\<lambda>p. duration (decoded w st p) + 400) clips)
                  + 800 + duration (create_bell_chime w st)))
   \<and> (\<forall>ils. list_all (\<lambda>il. fst il < 1000) ils \<and> distinct (map fst ils)
       \<longrightarrow> sort (map (clip_path job) ils) = map (clip_path job) (sort_key fst ils))"
proof (intro conjI allI impI)
  assume h: "clips \<noteq> [] \<and> list_all (decodable w st) clips
      \<and> (jingle_path = None \<or> files st (the jingle_path) = None)"
  let ?bell = "create_bell_chime w st"
  from h have "list_all (decodable w st) (sort clips)" by (simp add: list_all_iff)
  from conversation_track [OF this, of Empty] obtain conv where
    c: "conversation w st (sort clips) Empty = Inr conv"
    and p: "pieces conv = concat (map (\<lambda>p. [decoded w st p, Silent 400]) (sort clips))"
    and l: "duration conv = sum_list (map (\<lambda>p. duration (decoded w st p) + 400) (sort clips))"
    by auto
  let ?master = "Normalize (Append (Append (Append ?bell (Silent 1000)) conv)
                                (Append (Silent 800) ?bell))"
  from h have s: "sections w st jingle_path ?bell
      = Inr (Append ?bell (Silent 1000), Append (Silent 800) ?bell)"
    by (intro sections_no_jingle) simp
  have a: "assemble w st clips jingle_path = Inr ?master"
    unfolding assemble_def c s by (simp add: andthen_def)
  have e: "stitch_podcast w clips jingle_path job st = export w ?master (final_path_of job) st"
    using h a by (simp add: stitch_podcast_def)
  show "\<exists>conv.
          assemble w st clips jingle_path
            = Inr (Normalize (Append (Append (Append ?bell (Silent 1000)) conv)
                                (Append (Silent 800) ?bell)))
          \<and> pieces conv = concat (map (\<lambda>p. [decoded w st p, Silent 400]) (sort clips))
          \<and> stitch_podcast w clips jingle_path job st
              = export w (Normalize (Append (Append (Append ?bell (Silent 1000)) conv)
                                (Append (Silent 800) ?bell)))
                  (final_path_of job) st"
    using a p e by blast
  fix master
  assume "assemble w st clips jingle_path = Inr master"
  with a have "master = ?master" by simp
  then show "duration master
                = duration ?bell + 1000
                  + sum_list (map (\<lambda>p. duration (decoded w st p) + 400) clips)
                  + 800 + duration ?bell"
    using l by (simp add: sum_list_sort)
next
  fix ils :: "(nat \<times> string) list"
  assume "list_all (\<lambda>il. fst il < 1000) ils \<and> distinct (map fst ils)"
  then show "sort (map (clip_path job) ils) = map (clip_path job) (sort_key fst ils)"
    using sort_clip_paths by blast
qed

lemma two_clips_decodable:
  "list_all (decodable decoding two_clips) [sam_clip 101, sam_clip 1000]"
  by code_simp

lemma two_clips_master:
  "assemble decoding two_clips [sam_clip 101, sam_clip 1000] None
   = Inr (Normalize
       (Append
         (Append (Append synthetic_bell (Silent 1000))
            (Append (Append Empty (Append (Decoded ''b'' 3000) (Silent 400)))
               (Append (Decoded ''a'' 2000) (Silent 400))))
         (Append (Silent 800) synthetic_bell)))"
  by code_simp

theorem stitch_master_structure_witness:
  "[sam_clip 101, sam_clip 1000] \<noteq> []
   \<and> list_all (decodable decoding two_clips) [sam_clip 101, sam_clip 1000]
   \<and> duration (projr (assemble decoding two_clips [sam_clip 101, sam_clip 1000] None))
       = 2400 + 1000 + ((2000 + 400) + (3000 + 400)) + 800 + 2400
   \<and> (3 :: nat) < 1000 \<and> (0 :: nat) < 1000 \<and> distinct [3, 0 :: nat]
   \<and> sort [clip_path ''1b9d6bcd'' (3, ''sam''), clip_path ''1b9d6bcd'' (0, ''alex'')]
       = [clip_path ''1b9d6bcd'' (0, ''alex''), clip_path ''1b9d6bcd'' (3, ''sam'')]"
proof -
  note T = stitch_master_structure [of "[sam_clip 101, sam_clip 1000]" decoding two_clips None
      "''1b9d6bcd''"]
  have h: "[sam_clip 101, sam_clip 1000] \<noteq> []
      \<and> list_all (decodable decoding two_clips) [sam_clip 101, sam_clip 1000]
      \<and> (None = None \<or> files two_clips (the None) = None)"
    using two_clips_decodable by simp
  have b: "create_bell_chime decoding two_clips = synthetic_bell" by code_simp
  have d: "decoded decoding two_clips (sam_clip 101) = Decoded ''a'' 2000"
    "decoded decoding two_clips (sam_clip 1000) = Decoded ''b'' 3000" by code_simp+
  have "duration (projr (assemble decoding two_clips [sam_clip 101, sam_clip 1000] None))
       = duration synthetic_bell + 1000 + ((2000 + 400) + (3000 + 400)) + 800 + duration synthetic_bell"
    using T [THEN conjunct1, rule_format, OF h, THEN conjunct2, rule_format, OF two_clips_master]
    unfolding two_clips_master b d by simp
  moreover have "duration synthetic_bell = 2400" by (simp add: synthetic_bell_def Let_def)
  ultimately have c1: "duration (projr (assemble decoding two_clips [sam_clip 101, sam_clip 1000] None))
       = 2400 + 1000 + ((2000 + 400) + (3000 + 400)) + 800 + 2400" by simp
  have "list_all (\<lambda>il. fst il < 1000) [(3, ''sam''), (0 :: nat, ''alex'')]
        \<and> distinct (map fst [(3, ''sam''), (0 :: nat, ''alex'')])" by simp
  from T [THEN conjunct2, rule_format, OF this]
  have c2: "sort [clip_path ''1b9d6bcd'' (3, ''sam''), clip_path ''1b9d6bcd'' (0, ''alex'')]
       = [clip_path ''1b9d6bcd'' (0, ''alex''), clip_path ''1b9d6bcd'' (3, ''sam'')]"
    by simp
  show ?thesis using two_clips_decodable c1 c2 by simp
qed


text \<open>
  Claim C3 as worded orders the conversation by sequence index for every clip list. With
  the clips of lines 101 and 1000 the master plays the clip of line 1000 first.
\<close>

theorem conversation_order_counterexample:
  "sort [sam_clip 101, sam_clip 1000] = [sam_clip 1000, sam_clip 101]
   \<and> decoded decoding two_clips (sam_clip 101) = Decoded ''a'' 2000
   \<and> decoded decoding two_clips (sam_clip 1000) = Decoded ''b'' 3000
   \<and> assemble decoding two_clips [sam_clip 101, sam_clip 1000] None
       = Inr (Normalize
           (Append
             (Append (Append synthetic_bell (Silent 1000))
                (Append (Append Empty (Append (Decoded ''b'' 3000) (Silent 400)))
                   (Append (Decoded ''a'' 2000) (Silent 400))))
             (Append (Silent 800) synthetic_bell)))"
  by code_simp

subsection \<open>Claim C2: the outcomes of the generate route\<close>

text \<open>
  The guard of the route: topic and url both empty after trimming give status 400 with
  nothing run; otherwise the pipeline is entered with the trimmed fields.
\<close>

lemma generate_podcast_guard:
  assumes "body_field body ''topic'' [] = Inr topic0" and "body_field body ''url'' [] = Inr url"
    and "body_field body ''tone'' ''casual'' = Inr tone"
  shows "generate_podcast cfg w body st
         = (if topic0 = [] \<and> url = []
            then (Inl (HTTPException 400 ''Provide a 'topic' or 'url'.''), st)
            else run_pipeline cfg w topic0 url tone st)"
  using assms by (simp add: generate_podcast_def)

text \<open>
  The pipeline ends without a payload only by an exception of the job directory, of the
  voice stage, of the stitching, or of the response: research, script and jingle return
  on every path.
\<close>

lemma run_pipeline_aborts:
  assumes "run_pipeline cfg w topic0 url tone st = (Inl f, st')"
  shows "\<exists>e. f = Unhandled e
           \<and> (mkdir_error w (path_div OUTPUT_DIR (job_of w)) = Some e
               \<or> generate_voice_clips cfg w (script_of cfg w topic0 url tone) (job_of w) st
                   = (Inl e, st')
               \<or> (\<exists>clips st1 jp st2.
                    generate_voice_clips cfg w (script_of cfg w topic0 url tone) (job_of w) st
                      = (Inr clips, st1)
                    \<and> generate_jingle cfg w (topic_of topic0 url) (job_of w) st1 = (jp, st2)
                    \<and> (stitch_podcast w clips jp (job_of w) st2 = (Inl e, st')
                        \<or> render_error w (response_of cfg w topic0 url tone clips True) = Some e)))"
proof (cases "mkdir_error w (path_div OUTPUT_DIR (job_of w))")
  case (Some e)
  with assms have "f = Unhandled e" unfolding run_pipeline_unfold by simp
  with Some show ?thesis by blast
next
  case m: None
  obtain v st1 where v: "generate_voice_clips cfg w (script_of cfg w topic0 url tone) (job_of w) st = (v, st1)"
    by (cases "generate_voice_clips cfg w (script_of cfg w topic0 url tone) (job_of w) st")
  show ?thesis
  proof (cases v)
    case (Inl e)
    with assms m v have "f = Unhandled e" "st' = st1" unfolding run_pipeline_unfold by simp_all
    with v Inl show ?thesis by blast
  next
    case (Inr clips)
    obtain jp st2 where j: "generate_jingle cfg w (topic_of topic0 url) (job_of w) st1 = (jp, st2)"
      by (cases "generate_jingle cfg w (topic_of topic0 url) (job_of w) st1")
    obtain s st3 where s: "stitch_podcast w clips jp (job_of w) st2 = (s, st3)"
      by (cases "stitch_podcast w clips jp (job_of w) st2")
    show ?thesis
    proof (cases s)
      case (Inl e)
      with assms m v Inr j s have "f = Unhandled e" "st' = st3"
        unfolding run_pipeline_unfold by simp_all
      with v Inr j s Inl show ?thesis by blast
    next
      case r: (Inr fp)
      from s r stitch_podcast_Inr have ex: "(files st3 fp \<noteq> None) = True" by blast
      let ?r = "response_of cfg w topic0 url tone clips True"
      have u: "run_pipeline cfg w topic0 url tone st
          = (case render_error w ?r of
               Some e \<Rightarrow> (Inl (Unhandled e), st3) | None \<Rightarrow> (Inr ?r, st3))"
        unfolding run_pipeline_unfold m option.case v Inr prod.case sum.case j s r ex
        by (rule refl)
      show ?thesis
      proof (cases "render_error w ?r")
        case None
        with assms u show ?thesis by simp
      next
        case (Some e)
        with assms u have "f = Unhandled e" by simp
        with v Inr j Some show ?thesis by blast
      qed
    qed
  qed
qed

text \<open>
  The voice stage returns when every line of the script has its two fields, and a run
  without a speech key completes with no clips.
\<close>

lemma generate_voice_clips_returns:
  assumes "mkdir_error w (clips_dir job) = None"
    and "iter script = Inr lines" and "list_all has_fields lines"
  shows "\<exists>clips st1. generate_voice_clips cfg w script job st = (Inr clips, st1)"
proof (cases "ELEVENLABS_API_KEY cfg = []")
  case True
  then show ?thesis using assms(1) by (simp add: generate_voice_clips_def)
next
  case False
  obtain v st1 where v: "voice_loop cfg w job 0 lines [] st = (v, st1)"
    by (cases "voice_loop cfg w job 0 lines [] st")
  with voice_loop_clips [OF assms(3), of cfg w job 0 "[]" st] obtain clips where "v = Inr clips"
    by simp
  with v False assms(1,2) show ?thesis by (simp add: generate_voice_clips_def)
qed

lemma run_pipeline_degraded:
  assumes "ELEVENLABS_API_KEY cfg = []"
    and "mkdir_error w (path_div OUTPUT_DIR (job_of w)) = None"
    and "mkdir_error w (clips_dir (job_of w)) = None"
    and "write_error w (final_path_of (job_of w)) = None"
    and "render_error w (response_of cfg w topic0 url tone [] True) = None"
  shows "\<exists>st'. run_pipeline cfg w topic0 url tone st
                = (Inr (response_of cfg w topic0 url tone [] True), st')"
proof -
  have v: "generate_voice_clips cfg w (script_of cfg w topic0 url tone) (job_of w) st = (Inr [], st)"
    using assms(1,3) by (simp add: generate_voice_clips_def)
  obtain jp st2 where j: "generate_jingle cfg w (topic_of topic0 url) (job_of w) st = (jp, st2)"
    by (cases "generate_jingle cfg w (topic_of topic0 url) (job_of w) st")
  have s: "stitch_podcast w [] jp (job_of w) st2
      = (Inr (final_path_of (job_of w)),
         st2\<lparr>files := (files st2)(final_path_of (job_of w) \<mapsto> mp3_encode w (Silent 1000))\<rparr>)"
    using assms(4) by (simp add: stitch_podcast_empty export_ok)
  show ?thesis
    unfolding run_pipeline_completes [OF assms(2) v j s assms(5)] by simp
qed

text \<open>
  A submission whose topic is one space is rejected: the guard looks at the trimmed
  fields, for which such a topic is empty.
\<close>

lemma blank_topic_rejected:
  "generate_podcast all_keys speaks (JObj [(''topic'', JStr '' '')]) fresh
   = (Inl (HTTPException 400 ''Provide a 'topic' or 'url'.''), fresh)"
proof -
  have "body_field (JObj [(''topic'', JStr '' '')]) ''topic'' [] = Inr []"
    "body_field (JObj [(''topic'', JStr '' '')]) ''url'' [] = Inr []"
    "body_field (JObj [(''topic'', JStr '' '')]) ''tone'' ''casual'' = Inr ''casual''"
    by code_simp+
  then show ?thesis by (simp add: generate_podcast_def)
qed

lemma no_break_space_topic_rejected:
  "generate_podcast all_keys speaks (JObj [(''topic'', JStr [CHR 0xC2, CHR 0xA0])]) fresh
   = (Inl (HTTPException 400 ''Provide a 'topic' or 'url'.''), fresh)"
proof -
  have "body_field (JObj [(''topic'', JStr [CHR 0xC2, CHR 0xA0])]) ''topic'' [] = Inr []"
    "body_field (JObj [(''topic'', JStr [CHR 0xC2, CHR 0xA0])]) ''url'' [] = Inr []"
    "body_field (JObj [(''topic'', JStr [CHR 0xC2, CHR 0xA0])]) ''tone'' ''casual'' = Inr ''casual''"
    by code_simp+
  then show ?thesis by (simp add: generate_podcast_def)
qed

text \<open>A tone that is not a string ends the route before the guard.\<close>

lemma non_string_tone_aborts:
  "generate_podcast all_keys offline (JObj [(''topic'', JStr ''black holes''), (''tone'', JNull)]) fresh
   = (Inl (Unhandled AttributeError), fresh)"
proof -
  have "body_field (JObj [(''topic'', JStr ''black holes''), (''tone'', JNull)]) ''topic'' []
        = Inr ''black holes''"
    "body_field (JObj [(''topic'', JStr ''black holes''), (''tone'', JNull)]) ''url'' [] = Inr []"
    "body_field (JObj [(''topic'', JStr ''black holes''), (''tone'', JNull)]) ''tone'' ''casual''
        = Inl AttributeError"
    by code_simp+
  then show ?thesis by (simp add: generate_podcast_def)
qed

lemma no_speaker_script:
  "script_of all_keys no_speaker_chat ''black holes'' [] ''casual'' = JArr [JObj [(''text'', JStr ''hi'')]]"
  by code_simp

lemma no_speaker_voice:
  "generate_voice_clips all_keys no_speaker_chat (JArr [JObj [(''text'', JStr ''hi'')]]) job fresh
   = (Inl KeyError, fresh)"
  by (simp add: generate_voice_clips_def all_keys_def no_keys_def no_speaker_chat_def offline_def)

lemma black_holes_fields:
  "body_field (JObj [(''topic'', JStr ''black holes'')]) ''topic'' [] = Inr ''black holes''"
  "body_field (JObj [(''topic'', JStr ''black holes'')]) ''url'' [] = Inr []"
  "body_field (JObj [(''topic'', JStr ''black holes'')]) ''tone'' ''casual'' = Inr ''casual''"
  by code_simp+

text \<open>
  Claim C2. The claim lets no error of a stage end the job, and the code aims at that:
  every stage but the stitching has its handler, and the voice loop wraps each line in
  a \<^verbatim>\<open>try\<close> that skips the line. But the loop reads \<^verbatim>\<open>line["speaker"]\<close> and
  \<^verbatim>\<open>line["text"]\<close> before that \<^verbatim>\<open>try\<close>, and \<^verbatim>\<open>stitch_podcast\<close> decodes the clips with no
  handler. Two runs with the topic \<^verbatim>\<open>black holes\<close> and all credentials set: when the
  completion is the array \<^verbatim>\<open>[{"text":"hi"}]\<close>, the script stage returns it, the
  voice stage raises \<^verbatim>\<open>KeyError\<close> on its only line and the route ends without a payload;
  when every line is spoken but the clips do not decode, the route ends in the decoder's
  exception.
\<close>

theorem generate_podcast_aborts:
  "body_field (JObj [(''topic'', JStr ''black holes'')]) ''topic'' [] = Inr ''black holes''
   \<and> script_of all_keys no_speaker_chat ''black holes'' [] ''casual''
       = JArr [JObj [(''text'', JStr ''hi'')]]
   \<and> getitem_key (JObj [(''text'', JStr ''hi'')]) ''speaker'' = Inl KeyError
   \<and> generate_voice_clips all_keys no_speaker_chat (JArr [JObj [(''text'', JStr ''hi'')]])
         (job_of no_speaker_chat) fresh
       = (Inl KeyError, fresh)
   \<and> generate_podcast all_keys no_speaker_chat (JObj [(''topic'', JStr ''black holes'')]) fresh
       = (Inl (Unhandled KeyError), fresh)
   \<and> fst (generate_podcast all_keys speaks (JObj [(''topic'', JStr ''black holes'')]) fresh)
       = Inl (Unhandled CouldntDecodeError)"
proof -
  have m: "mkdir_error no_speaker_chat p = None" for p
    by (simp add: no_speaker_chat_def offline_def)
  have g: "getitem_key (JObj [(''text'', JStr ''hi'')]) ''speaker'' = Inl KeyError"
    by simp
  have r: "run_pipeline all_keys no_speaker_chat ''black holes'' [] ''casual'' fresh
       = (Inl (Unhandled KeyError), fresh)"
    unfolding run_pipeline_unfold m option.case no_speaker_script no_speaker_voice
    by simp
  have c1: "generate_podcast all_keys no_speaker_chat (JObj [(''topic'', JStr ''black holes'')]) fresh
       = (Inl (Unhandled KeyError), fresh)"
    unfolding generate_podcast_guard [OF black_holes_fields] r by simp
  have c2: "fst (generate_podcast all_keys speaks (JObj [(''topic'', JStr ''black holes'')]) fresh)
       = Inl (Unhandled CouldntDecodeError)"
    by code_simp
  show ?thesis
    using black_holes_fields(1) no_speaker_script g no_speaker_voice c1 c2 by simp
qed

end
